theory Spec2Isabelle
  imports
    Main
    "HOL-Library.FSet"
    "HOL-Library.Char_ord"
    "HOL-Library.List_Lexorder"
    "HOL-Library.Word"
begin

section \<open>Data model\<close>

text \<open>
  Go strings are byte sequences; \<open>string\<close> is a list of 8-bit characters. With
  \<open>Char_ord\<close> and \<open>List_Lexorder\<close> the order on \<open>string\<close> is the bytewise
  lexicographic order, which is what Go's \<open><\<close> on strings and \<open>sort.Strings\<close> use.

  A pointer that the source tests against nil is an \<open>option\<close>. A pointer that the
  source dereferences without a test (\<open>cfg.Metadata\<close>, the fields of the SDK's
  \<open>Cluster\<close>) is modelled by the value it points to: \<open>NewClusterConfig\<close> and the SDK
  always set them.
\<close>

record ClusterMeta =
  Name :: string
  Region :: string

record ClusterCloudWatchLogging =
  EnableTypes :: "string list"

record ClusterCloudWatch =
  ClusterLogging :: "ClusterCloudWatchLogging option"

record ClusterConfig =
  Metadata :: ClusterMeta
  CloudWatch :: "ClusterCloudWatch option"

text \<open>
  Errors are values. Each constructor is one place where the source builds an error;
  \<open>External\<close> is an error handed back by a collaborator (the provider's client, the
  metadata loader, the printer), identified by its message.
\<close>

datatype error =
    UnknownLogType string
      \<comment> \<open>\<open>fmt.Errorf("log type %q is unknown", logType)\<close>\<close>
  | Wrap error string
      \<comment> \<open>\<open>errors.Wrap(err, msg)\<close>\<close>
  | StatusNotActive string string string
      \<comment> \<open>\<open>fmt.Errorf("status of cluster %q is %q, has to be %q", name, status, active)\<close>\<close>
  | NilString
      \<comment> \<open>\<open>fmt.Errorf("unexpected response from EKS API - nil string")\<close>\<close>
  | TimedOut string "64 word"
      \<comment> \<open>\<open>fmt.Errorf("timed out waiting for control plane %q after %s", name, timeout)\<close>\<close>
  | ErrUnsupportedRegion
      \<comment> \<open>\<open>cmdutils.ErrUnsupportedRegion(rc.ProviderConfig)\<close>\<close>
  | External string

section \<open>String sets (\<open>k8s.io/apimachinery/pkg/util/sets\<close>)\<close>

text \<open>
  \<open>sets.String\<close> is a Go map from string to the empty struct, used as a finite set of
  strings. The library is not part of the repository; its operations are modelled on
  finite sets as the library implements them: \<open>Equal\<close> compares the lengths and then
  tests inclusion, \<open>Difference\<close> filters the receiver, \<open>List\<close> returns the members
  sorted ascending.
\<close>

type_synonym String_set = "string fset"

definition NewString :: "string list \<Rightarrow> String_set" where
  "NewString items = foldl (\<lambda>s item. finsert item s) {||} items"

definition Insert :: "String_set \<Rightarrow> string list \<Rightarrow> String_set" where
  "Insert s items = foldl (\<lambda>s item. finsert item s) s items"

definition Has :: "String_set \<Rightarrow> string \<Rightarrow> bool" where
  "Has s item = (item |\<in>| s)"

definition Difference :: "String_set \<Rightarrow> String_set \<Rightarrow> String_set" where
  "Difference s s2 = ffilter (\<lambda>key. \<not> Has s2 key) s"

definition IsSuperset :: "String_set \<Rightarrow> String_set \<Rightarrow> bool" where
  "IsSuperset s1 s2 = fBall s2 (\<lambda>item. Has s1 item)"

definition Equal :: "String_set \<Rightarrow> String_set \<Rightarrow> bool" where
  "Equal s1 s2 = (fcard s1 = fcard s2 \<and> IsSuperset s1 s2)"

definition List_of :: "String_set \<Rightarrow> string list" where
  "List_of s = sorted_list_of_fset s"

section \<open>Defaults of the cluster configuration (package \<open>v1alpha5\<close>)\<close>

definition SupportedCloudWatchClusterLoggingTypes :: "string list" where
  "SupportedCloudWatchClusterLoggingTypes =
     [''api'', ''audit'', ''authenticator'', ''controllerManager'', ''scheduler'']"

text \<open>
  The first loop of \<open>SetClusterConfigDefaults\<close>. Go evaluates the range expression once,
  so the loop visits the entries of the list as it was declared, also after an assignment
  to \<open>EnableTypes\<close> in its body; \<open>expandTypes\<close> folds over the declared list and carries
  the current value of \<open>EnableTypes\<close>.
\<close>

definition expandStep :: "string list \<Rightarrow> string \<Rightarrow> string list" where
  "expandStep current logType =
     (if logType = ''all'' \<or> logType = ''*''
      then SupportedCloudWatchClusterLoggingTypes else current)"

definition expandTypes :: "string list \<Rightarrow> string list" where
  "expandTypes declared = foldl expandStep declared declared"

text \<open>
  The second loop: the inner loop clears \<open>isUnknown\<close> at every supported name equal to the
  entry, and the outer loop returns at the first entry for which it stays set.
\<close>

definition isUnknown :: "string \<Rightarrow> bool" where
  "isUnknown logType =
     foldl (\<lambda>unknown knownLogType. if logType = knownLogType then False else unknown)
       True SupportedCloudWatchClusterLoggingTypes"

fun validateTypes :: "string list \<Rightarrow> error option" where
  "validateTypes [] = None"
| "validateTypes (logType # rest) =
     (if isUnknown logType then Some (UnknownLogType logType) else validateTypes rest)"

text \<open>
  \<open>SetClusterConfigDefaults\<close> returns its error together with the configuration it has
  mutated through the pointer.
\<close>

definition SetClusterConfigDefaults :: "ClusterConfig \<Rightarrow> error option \<times> ClusterConfig" where
  "SetClusterConfigDefaults cfg =
     (case CloudWatch cfg of
        None \<Rightarrow> (None, cfg)
      | Some cw \<Rightarrow>
          (case ClusterLogging cw of
             None \<Rightarrow> (None, cfg)
           | Some cl \<Rightarrow>
               let types = expandTypes (EnableTypes cl);
                   cfg' = cfg\<lparr>CloudWatch :=
                            Some (cw\<lparr>ClusterLogging := Some (cl\<lparr>EnableTypes := types\<rparr>)\<rparr>)\<rparr>
               in (validateTypes types, cfg')))"

section \<open>The provider and the trace of its effects\<close>

text \<open>
  The SDK's request and response structures, with the fields the source reads or writes.
\<close>

record LogSetup =
  Enabled :: "bool option"
  Types :: "string option list"

record Cluster =
  cluster_Name :: string
  cluster_Status :: string
  cluster_Logging :: "LogSetup list"
    \<comment> \<open>\<open>cluster.Logging.ClusterLogging\<close>\<close>

record Update =
  update_Id :: string
  update_Type :: string

record UpdateClusterConfigInput =
  input_Name :: string
  input_Logging :: "LogSetup list"
    \<comment> \<open>\<open>input.Logging.ClusterLogging\<close>\<close>

record ListClustersInput =
  MaxResults :: "64 word"
  NextToken :: "string option"

record ListClustersOutput =
  Clusters :: "string list"
  output_NextToken :: "string option"

definition ClusterStatusActive :: string where
  "ClusterStatusActive = ''ACTIVE''"

text \<open>
  A \<open>ClusterProvider\<close> holds the region and the wait timeout of its provider and the
  answers of the EKS service, which are parameters of the model: each answer is a
  function of the region and of the request. \<open>waiters_Wait\<close> is the result of
  \<open>waiters.Wait\<close> for an update of a cluster; the waiter's code is not part of the
  sources at hand.
\<close>

record ClusterProvider =
  provider_Region :: string
  provider_WaitTimeout :: "64 word"
  EKS_DescribeCluster :: "string \<Rightarrow> string \<Rightarrow> error + Cluster"
  EKS_UpdateClusterConfig :: "string \<Rightarrow> UpdateClusterConfigInput \<Rightarrow> error + Update"
  EKS_ListClusters :: "string \<Rightarrow> ListClustersInput \<Rightarrow> error + ListClustersOutput"
  waiters_Wait :: "string \<Rightarrow> Update \<Rightarrow> error option"

text \<open>
  The trace records, in order, the requests that list clusters, the requests that update
  the configuration, and the log lines at the levels critical, success and warning and
  of the intended action. Debug and info lines and the read-only describe requests are
  not recorded.
\<close>

datatype event =
    Call_ListClusters string ListClustersInput
  | Call_UpdateClusterConfig string UpdateClusterConfigInput
  | Log_Critical_listing string error
      \<comment> \<open>\<open>logger.Critical("error listing clusters in %q region: %s", region, err)\<close>\<close>
  | Log_IntendedAction bool string string string string
      \<comment> \<open>plan mode, cluster name, region, types to enable, types to disable\<close>
  | Log_Success_upToDate string string
  | Log_Success_configured string string string string
  | Log_PlanModeWarning

text \<open>
  Modelled from the spec: the helpers \<open>api.IsEnabled\<close>, \<open>api.IsDisabled\<close> and
  \<open>api.IsSetAndNonEmptyString\<close> of package \<open>v1alpha5\<close>, whose code is not among
  the sources. The spec calls the first two the enabled/disabled boolean-pointer helpers,
  and has the enumeration stop when the returned next token is empty or absent.
\<close>

definition IsEnabled :: "bool option \<Rightarrow> bool" where
  "IsEnabled v = (case v of None \<Rightarrow> False | Some b \<Rightarrow> b)"

definition IsDisabled :: "bool option \<Rightarrow> bool" where
  "IsDisabled v = (case v of None \<Rightarrow> False | Some b \<Rightarrow> \<not> b)"

definition IsSetAndNonEmptyString :: "string option \<Rightarrow> bool" where
  "IsSetAndNonEmptyString s = (case s of None \<Rightarrow> False | Some v \<Rightarrow> v \<noteq> [])"

text \<open>\<open>strings.Join\<close> of the Go standard library.\<close>

fun Join :: "string list \<Rightarrow> string \<Rightarrow> string" where
  "Join [] sep = []"
| "Join [x] sep = x"
| "Join (x # y # rest) sep = x @ sep @ Join (y # rest) sep"

section \<open>Describing the control plane (package \<open>eks\<close>)\<close>

definition DescribeControlPlane :: "ClusterProvider \<Rightarrow> ClusterMeta \<Rightarrow> error + Cluster" where
  "DescribeControlPlane c cl =
     (case EKS_DescribeCluster c (provider_Region c) (Name cl) of
        Inl err \<Rightarrow> Inl (Wrap err ''unable to describe cluster control plane'')
      | Inr cluster \<Rightarrow> Inr cluster)"

definition DescribeControlPlaneMustBeActive ::
  "ClusterProvider \<Rightarrow> ClusterMeta \<Rightarrow> error + Cluster" where
  "DescribeControlPlaneMustBeActive c cl =
     (case DescribeControlPlane c cl of
        Inl err \<Rightarrow> Inl (Wrap err ''unable to describe cluster control plane'')
      | Inr cluster \<Rightarrow>
          if cluster_Status cluster \<noteq> ClusterStatusActive
          then Inl (StatusNotActive (cluster_Name cluster) (cluster_Status cluster)
                      ClusterStatusActive)
          else Inr cluster)"

text \<open>
  The nested iteration of \<open>GetCurrentClusterConfigForLogging\<close>: the inner loop runs over
  the types of one log setup, the outer one over the setups; a nil type ends both with
  an error.
\<close>

fun collectTypes ::
  "bool option \<Rightarrow> string option list \<Rightarrow> String_set \<times> String_set \<Rightarrow>
   error + String_set \<times> String_set" where
  "collectTypes en [] (enabled, disabled) = Inr (enabled, disabled)"
| "collectTypes en (t # ts) (enabled, disabled) =
     (case t of
        None \<Rightarrow> Inl NilString
      | Some name \<Rightarrow>
          collectTypes en ts
            (if IsEnabled en then Insert enabled [name] else enabled,
             if IsDisabled en then Insert disabled [name] else disabled))"

fun collectSetups ::
  "LogSetup list \<Rightarrow> String_set \<times> String_set \<Rightarrow> error + String_set \<times> String_set" where
  "collectSetups [] sets = Inr sets"
| "collectSetups (i # rest) sets =
     (case collectTypes (Enabled i) (Types i) sets of
        Inl err \<Rightarrow> Inl err
      | Inr sets' \<Rightarrow> collectSetups rest sets')"

definition GetCurrentClusterConfigForLogging ::
  "ClusterProvider \<Rightarrow> ClusterMeta \<Rightarrow> error + String_set \<times> String_set" where
  "GetCurrentClusterConfigForLogging c cl =
     (case DescribeControlPlaneMustBeActive c cl of
        Inl err \<Rightarrow> Inl (Wrap err ''unable to retrieve current cluster logging configuration'')
      | Inr cluster \<Rightarrow> collectSetups (cluster_Logging cluster) (NewString [], NewString []))"

section \<open>Listing clusters (package \<open>eks\<close>)\<close>

definition listInput :: "64 word \<Rightarrow> string \<Rightarrow> ListClustersInput" where
  "listInput chunkSize nextToken =
     (let input = \<lparr>MaxResults = chunkSize, NextToken = None\<rparr>
      in if nextToken \<noteq> [] then input\<lparr>NextToken := Some nextToken\<rparr> else input)"

definition getClustersRequest ::
  "ClusterProvider \<Rightarrow> 64 word \<Rightarrow> string \<Rightarrow> error + string list \<times> string option" where
  "getClustersRequest c chunkSize nextToken =
     (case EKS_ListClusters c (provider_Region c) (listInput chunkSize nextToken) of
        Inl err \<Rightarrow> Inl (Wrap err ''listing control planes'')
      | Inr output \<Rightarrow> Inr (Clusters output, output_NextToken output))"

definition clusterMetas :: "ClusterProvider \<Rightarrow> string list \<Rightarrow> ClusterMeta list" where
  "clusterMetas c clusters =
     map (\<lambda>clusterName. \<lparr>Name = clusterName, Region = provider_Region c\<rparr>) clusters"

text \<open>
  The page loop of \<open>doListClusters\<close> (the branch for a single region). It carries the
  token, the list behind \<open>allClusters\<close> and the trace. The loop ends only when the
  service returns an error or no further token, so it is a partial function: \<open>None\<close>
  is the run that never returns. On an error the list keeps what the earlier pages
  appended, since the source appends through the caller's pointer page by page.
\<close>

partial_function (option) listPages ::
  "ClusterProvider \<Rightarrow> 64 word \<Rightarrow> string \<Rightarrow> ClusterMeta list \<Rightarrow> event list \<Rightarrow>
   (error option \<times> ClusterMeta list \<times> event list) option" where
  "listPages c chunkSize token allClusters trace =
     (let trace' = trace @ [Call_ListClusters (provider_Region c) (listInput chunkSize token)]
      in case getClustersRequest c chunkSize token of
           Inl err \<Rightarrow> Some (Some err, allClusters, trace')
         | Inr (clusters, nextToken) \<Rightarrow>
             if IsSetAndNonEmptyString nextToken
             then listPages c chunkSize (the nextToken)
                    (allClusters @ clusterMetas c clusters) trace'
             else Some (None, allClusters @ clusterMetas c clusters, trace'))"

text \<open>
  \<open>New(spec, nil)\<close> for another region keeps the profile and the wait timeout of the
  provider at hand.
\<close>

definition New :: "ClusterProvider \<Rightarrow> string \<Rightarrow> ClusterProvider" where
  "New c region = c\<lparr>provider_Region := region\<rparr>"

text \<open>
  The loop over the regions: each region is listed by the recursive call with
  \<open>eachRegion = false\<close> on the same list; an error is logged and the loop goes on. The
  list of supported regions (\<open>api.SupportedRegions()\<close>) is a parameter.
\<close>

fun listEachRegion ::
  "ClusterProvider \<Rightarrow> string list \<Rightarrow> 64 word \<Rightarrow> ClusterMeta list \<Rightarrow> event list \<Rightarrow>
   (ClusterMeta list \<times> event list) option" where
  "listEachRegion c [] chunkSize allClusters trace = Some (allClusters, trace)"
| "listEachRegion c (region # rest) chunkSize allClusters trace =
     (case listPages (New c region) chunkSize [] allClusters trace of
        None \<Rightarrow> None
      | Some (None, allClusters', trace') \<Rightarrow>
          listEachRegion c rest chunkSize allClusters' trace'
      | Some (Some err, allClusters', trace') \<Rightarrow>
          listEachRegion c rest chunkSize allClusters'
            (trace' @ [Log_Critical_listing region err]))"

definition doListClusters ::
  "ClusterProvider \<Rightarrow> string list \<Rightarrow> 64 word \<Rightarrow> ClusterMeta list \<Rightarrow> bool \<Rightarrow>
   (error option \<times> ClusterMeta list \<times> event list) option" where
  "doListClusters c SupportedRegions chunkSize allClusters eachRegion =
     (if eachRegion
      then (case listEachRegion c SupportedRegions chunkSize allClusters [] of
              None \<Rightarrow> None
            | Some (allClusters', trace) \<Rightarrow> Some (None, allClusters', trace))
      else listPages c chunkSize [] allClusters [])"

section \<open>Scripts of the service's answers\<close>

text \<open>
  The statements about listing describe the answers of the service by a script.
  \<open>pagesFrom c chunkSize token pages\<close> holds when, asked with \<open>token\<close>, the service
  returns the pages of the list one after the other, each with the non-empty token that
  requests the next one. \<open>listCalls\<close> is the trace of the requests with the given tokens.
\<close>

fun pagesFrom :: "ClusterProvider \<Rightarrow> 64 word \<Rightarrow> string \<Rightarrow> (string list \<times> string) list \<Rightarrow> bool" where
  "pagesFrom c chunkSize token [] = True"
| "pagesFrom c chunkSize token ((names, nxt) # later) =
     (EKS_ListClusters c (provider_Region c) (listInput chunkSize token)
        = Inr \<lparr>Clusters = names, output_NextToken = Some nxt\<rparr>
      \<and> nxt \<noteq> [] \<and> pagesFrom c chunkSize nxt later)"

definition listCalls :: "ClusterProvider \<Rightarrow> 64 word \<Rightarrow> string list \<Rightarrow> event list" where
  "listCalls c chunkSize tokens =
     map (\<lambda>token. Call_ListClusters (provider_Region c) (listInput chunkSize token)) tokens"

text \<open>
  \<open>regionListing c chunkSize region pages final\<close> describes one region: the service
  returns \<open>pages\<close> and then either an error (\<open>final = Inl err\<close>) or a last page with
  the names \<open>names\<close> and no further token (\<open>final = Inr names\<close>). \<open>regionItems\<close> and
  \<open>regionTrace\<close> are the entries and the trace that such a region contributes.
\<close>

definition regionListing ::
  "ClusterProvider \<Rightarrow> 64 word \<Rightarrow> string \<Rightarrow> (string list \<times> string) list \<Rightarrow>
   error + string list \<Rightarrow> bool" where
  "regionListing c chunkSize region pages final =
     (pagesFrom (New c region) chunkSize [] pages
      \<and> (case EKS_ListClusters c region (listInput chunkSize (last ([] # map snd pages))) of
           Inl err \<Rightarrow> final = Inl err
         | Inr out \<Rightarrow>
             final = Inr (Clusters out) \<and> \<not> IsSetAndNonEmptyString (output_NextToken out)))"

definition regionItems ::
  "string \<Rightarrow> (string list \<times> string) list \<Rightarrow> error + string list \<Rightarrow> ClusterMeta list" where
  "regionItems region pages final =
     map (\<lambda>clusterName. \<lparr>Name = clusterName, Region = region\<rparr>)
       (concat (map fst pages) @ (case final of Inl err \<Rightarrow> [] | Inr names \<Rightarrow> names))"

definition regionTrace ::
  "ClusterProvider \<Rightarrow> 64 word \<Rightarrow> string \<Rightarrow> (string list \<times> string) list \<Rightarrow>
   error + string list \<Rightarrow> event list" where
  "regionTrace c chunkSize region pages final =
     listCalls (New c region) chunkSize ([] # map snd pages)
     @ (case final of
          Inl err \<Rightarrow> [Log_Critical_listing region (Wrap err ''listing control planes'')]
        | Inr names \<Rightarrow> [])"

text \<open>Two providers for concrete runs.\<close>

definition pagedProvider :: ClusterProvider where
  "pagedProvider =
     \<lparr>provider_Region = ''us-west-2'',
      provider_WaitTimeout = 1500000000000,
      EKS_DescribeCluster = (\<lambda>region name. Inl (External ''not found'')),
      EKS_UpdateClusterConfig = (\<lambda>region input. Inl (External ''denied'')),
      EKS_ListClusters = (\<lambda>region input.
         case NextToken input of
           None \<Rightarrow> Inr \<lparr>Clusters = [''a'', ''b''], output_NextToken = Some ''t1''\<rparr>
         | Some token \<Rightarrow>
             if token = ''t1'' then Inr \<lparr>Clusters = [''c''], output_NextToken = Some []\<rparr>
             else Inl (External ''bad token'')),
      waiters_Wait = (\<lambda>name update. None)\<rparr>"

definition flakyProvider :: ClusterProvider where
  "flakyProvider =
     \<lparr>provider_Region = ''us-east-1'',
      provider_WaitTimeout = 1500000000000,
      EKS_DescribeCluster = (\<lambda>region name. Inl (External ''not found'')),
      EKS_UpdateClusterConfig = (\<lambda>region input. Inl (External ''denied'')),
      EKS_ListClusters = (\<lambda>region input.
         if region = ''us-east-1''
         then (case NextToken input of
                 None \<Rightarrow> Inr \<lparr>Clusters = [''a''], output_NextToken = Some ''t1''\<rparr>
               | Some token \<Rightarrow> Inl (External ''throttled''))
         else Inr \<lparr>Clusters = [''b''], output_NextToken = None\<rparr>),
      waiters_Wait = (\<lambda>name update. None)\<rparr>"

section \<open>Updating the logging configuration (package \<open>eks\<close>)\<close>

text \<open>
  The first part of \<open>UpdateClusterConfigForLogging\<close>: the set of the types to enable,
  the set of the types to disable, built by the loop over the supported types, and the
  request made of the two sorted lists.
\<close>

definition enabledSet :: "ClusterConfig \<Rightarrow> String_set" where
  "enabledSet cfg =
     (case CloudWatch cfg of
        None \<Rightarrow> NewString []
      | Some cw \<Rightarrow>
          (case ClusterLogging cw of
             None \<Rightarrow> NewString []
           | Some cl \<Rightarrow> Insert (NewString []) (EnableTypes cl)))"

definition disabledSet :: "String_set \<Rightarrow> String_set" where
  "disabledSet enabled =
     foldl (\<lambda>disabled logType.
              if \<not> Has enabled logType then Insert disabled [logType] else disabled)
       (NewString []) SupportedCloudWatchClusterLoggingTypes"

definition StringSlice :: "string list \<Rightarrow> string option list" where
  "StringSlice src = map Some src"

definition updateInput :: "ClusterConfig \<Rightarrow> UpdateClusterConfigInput" where
  "updateInput cfg =
     (let enabled = enabledSet cfg; disabled = disabledSet enabled
      in \<lparr>input_Name = Name (Metadata cfg),
          input_Logging =
            [\<lparr>Enabled = Some True, Types = StringSlice (List_of enabled)\<rparr>,
             \<lparr>Enabled = Some False, Types = StringSlice (List_of disabled)\<rparr>]\<rparr>)"

definition waitForUpdateToSucceed ::
  "ClusterProvider \<Rightarrow> string \<Rightarrow> Update \<Rightarrow> error option" where
  "waitForUpdateToSucceed c clusterName update = waiters_Wait c clusterName update"

definition UpdateClusterConfigForLogging ::
  "ClusterProvider \<Rightarrow> ClusterConfig \<Rightarrow> error option \<times> event list" where
  "UpdateClusterConfigForLogging c cfg =
     (let enabled = enabledSet cfg;
          disabled = disabledSet enabled;
          input = updateInput cfg;
          request = Call_UpdateClusterConfig (provider_Region c) input
      in case EKS_UpdateClusterConfig c (provider_Region c) input of
           Inl err \<Rightarrow> (Some err, [request])
         | Inr update \<Rightarrow>
             (case waitForUpdateToSucceed c (Name (Metadata cfg)) update of
                Some err \<Rightarrow> (Some err, [request])
              | None \<Rightarrow>
                  let describeEnabledTypes =
                        (if length (List_of enabled) > 0
                         then ''enabled types: '' @ Join (List_of enabled) '', ''
                         else ''no types enabled'');
                      describeDisabledTypes =
                        (if length (List_of disabled) > 0
                         then ''disabled types: '' @ Join (List_of disabled) '', ''
                         else ''no types disabled'')
                  in (None,
                      [request,
                       Log_Success_configured (Name (Metadata cfg)) (Region (Metadata cfg))
                         describeEnabledTypes describeDisabledTypes])))"

section \<open>The task that updates the configuration (package \<open>eks\<close>)\<close>

text \<open>
  A Go channel of errors: nil, or a channel with the values sent on it and the flag
  that it has been closed. \<open>close\<close> panics on a nil channel and on a closed one.
\<close>

datatype chan = NilChan | Chan bool "error list"

datatype chanOp = ChanSend error | ChanClose

definition closeChan :: "chan \<Rightarrow> chan option" where
  "closeChan ch =
     (case ch of
        NilChan \<Rightarrow> None
      | Chan closed sent \<Rightarrow> if closed then None else Some (Chan True sent))"

record updateClusterConfigTask =
  info :: string
  spec :: ClusterConfig
  call :: "ClusterConfig \<Rightarrow> error option \<times> event list"

text \<open>
  \<open>Do\<close> returns the error of the wrapped call, the channel as it leaves it, the
  operations it has performed on the channel, and the trace of the call; or it panics in
  \<open>close\<close>.
\<close>

datatype doResult = Returned "error option" chan "chanOp list" "event list" | Panicked

definition Describe :: "updateClusterConfigTask \<Rightarrow> string" where
  "Describe t = info t"

definition Do :: "updateClusterConfigTask \<Rightarrow> chan \<Rightarrow> doResult" where
  "Do t errs =
     (case call t (spec t) of
        (err, trace) \<Rightarrow>
          (case closeChan errs of
             None \<Rightarrow> Panicked
           | Some errs' \<Rightarrow> Returned err errs' [ChanClose] trace))"

section \<open>Waiting for the control plane (package \<open>eks\<close>)\<close>

text \<open>
  \<open>WaitForControlPlane\<close> checks the server version once and then runs a \<open>select\<close> on
  the channel of the ticker and on the channel of the timer in a loop. A \<open>select\<close>
  goes on when one of its cases can proceed; when both can, Go takes one of them by a
  uniform pseudo-random choice. The clock and the runtime are inputs of the model: for
  each \<open>select\<close> a step tells whether the ticker's channel holds a tick, whether the
  timer's channel holds the deadline (the timer has fired), which case the runtime picks
  when both are ready, and the result of the version check in case the tick is taken
  (\<open>None\<close> is a check without error). A step with neither channel ready leaves the
  \<open>select\<close> blocked.
\<close>

datatype selectCase = TickerCase | TimerCase

record selectStep =
  tickerReady :: bool
  timerReady :: bool
  pick :: selectCase
  check :: "error option"

definition selected :: "selectStep \<Rightarrow> selectCase option" where
  "selected step =
     (if tickerReady step \<and> timerReady step then Some (pick step)
      else if tickerReady step then Some TickerCase
      else if timerReady step then Some TimerCase
      else None)"

text \<open>
  The result is \<open>Blocked\<close> as long as the steps at hand have not made the function
  return; otherwise it holds the returned error. Both carry the number of version checks
  made.
\<close>

datatype waitResult = Blocked nat | Returns "error option" nat

fun waitLoop ::
  "ClusterProvider \<Rightarrow> ClusterMeta \<Rightarrow> selectStep list \<Rightarrow> nat \<Rightarrow> waitResult" where
  "waitLoop c meta [] checks = Blocked checks"
| "waitLoop c meta (step # steps) checks =
     (case selected step of
        None \<Rightarrow> waitLoop c meta steps checks
      | Some TickerCase \<Rightarrow>
          (case check step of
             None \<Rightarrow> Returns None (Suc checks)
           | Some err \<Rightarrow> waitLoop c meta steps (Suc checks))
      | Some TimerCase \<Rightarrow>
          Returns (Some (TimedOut (Name meta) (provider_WaitTimeout c))) checks)"

definition WaitForControlPlane ::
  "ClusterProvider \<Rightarrow> ClusterMeta \<Rightarrow> error option \<Rightarrow> selectStep list \<Rightarrow> waitResult" where
  "WaitForControlPlane c meta firstCheck steps =
     (case firstCheck of
        None \<Rightarrow> Returns None 1
      | Some err \<Rightarrow> waitLoop c meta steps 1)"

text \<open>
  For the statements about the wait: a step leaves the loop waiting when the \<open>select\<close>
  stays blocked or takes a tick whose check fails; \<open>failedChecks\<close> counts the ticks
  taken among such steps.
\<close>

definition stillWaiting :: "selectStep \<Rightarrow> bool" where
  "stillWaiting step =
     (case selected step of
        None \<Rightarrow> True
      | Some TickerCase \<Rightarrow> check step \<noteq> None
      | Some TimerCase \<Rightarrow> False)"

definition failedChecks :: "selectStep list \<Rightarrow> nat" where
  "failedChecks steps = length (filter (\<lambda>step. selected step = Some TickerCase) steps)"

section \<open>The command that enables logging (package \<open>utils\<close>)\<close>

text \<open>
  The collaborators of \<open>doEnableLogging\<close> that are not part of the sources are
  parameters: the metadata loader, which may rewrite the command's configuration, the
  check of the region, the check of the credentials, and the printer.
\<close>

record ResourceCmd =
  rc_ClusterConfig :: ClusterConfig
  Plan :: bool

record Collaborators =
  Load :: "ResourceCmd \<Rightarrow> error option \<times> ResourceCmd"
  IsSupportedRegion :: bool
  CheckAuth :: "error option"
  LogObj :: "ClusterConfig \<Rightarrow> error option"

definition shouldEnableSet :: "ClusterConfig \<Rightarrow> String_set" where
  "shouldEnableSet cfg =
     (case CloudWatch cfg of
        None \<Rightarrow> NewString []
      | Some cw \<Rightarrow>
          (case ClusterLogging cw of
             None \<Rightarrow> NewString []
           | Some cl \<Rightarrow> Insert (NewString []) (EnableTypes cl)))"

definition shouldDisableSet :: "String_set \<Rightarrow> String_set" where
  "shouldDisableSet shouldEnable =
     Difference (NewString SupportedCloudWatchClusterLoggingTypes) shouldEnable"

definition updateRequired :: "String_set \<Rightarrow> String_set \<Rightarrow> bool" where
  "updateRequired currentlyEnabled shouldEnable = (\<not> Equal currentlyEnabled shouldEnable)"

definition doEnableLogging ::
  "Collaborators \<Rightarrow> ClusterProvider \<Rightarrow> ResourceCmd \<Rightarrow> error option \<times> event list" where
  "doEnableLogging env ctl rc0 =
     (case Load env rc0 of
        (Some err, rc) \<Rightarrow> (Some err, [])
      | (None, rc) \<Rightarrow>
          let meta = Metadata (rc_ClusterConfig rc)
          in case SetClusterConfigDefaults (rc_ClusterConfig rc) of
               (Some err, cfg) \<Rightarrow> (Some err, [])
             | (None, cfg) \<Rightarrow>
                 if \<not> IsSupportedRegion env then (Some ErrUnsupportedRegion, [])
                 else case CheckAuth env of
                   Some err \<Rightarrow> (Some err, [])
                 | None \<Rightarrow>
                     (case GetCurrentClusterConfigForLogging ctl meta of
                        Inl err \<Rightarrow> (Some err, [])
                      | Inr (currentlyEnabled, currentlyDisabled) \<Rightarrow>
                          let shouldEnable = shouldEnableSet cfg;
                              shouldDisable = shouldDisableSet shouldEnable
                          in case LogObj env cfg of
                               Some err \<Rightarrow> (Some err, [])
                             | None \<Rightarrow>
                                 if updateRequired currentlyEnabled shouldEnable
                                 then
                                   let describeTypesToEnable =
                                         (if length (List_of shouldEnable) > 0
                                          then ''enable types: ''
                                                 @ Join (List_of shouldEnable) '', ''
                                          else ''no types to enable'');
                                       describeTypesToDisable =
                                         (if length (List_of shouldDisable) > 0
                                          then ''disable types: ''
                                                 @ Join (List_of shouldDisable) '', ''
                                          else ''no types to disable'');
                                       intended =
                                         Log_IntendedAction (Plan rc) (Name meta) (Region meta)
                                           describeTypesToEnable describeTypesToDisable
                                   in if \<not> Plan rc
                                      then (case UpdateClusterConfigForLogging ctl cfg of
                                              (Some err, trace) \<Rightarrow> (Some err, intended # trace)
                                            | (None, trace) \<Rightarrow> (None, intended # trace))
                                      else (None, [intended, Log_PlanModeWarning])
                                 else (None, [Log_Success_upToDate (Name meta) (Region meta)])))"

text \<open>
  The cluster and the provider of the package's test (\<open>update_config_test.go\<close>): an
  active cluster with \<open>api\<close> and \<open>audit\<close> enabled, and an update that succeeds.
\<close>

definition testCluster :: Cluster where
  "testCluster =
     \<lparr>cluster_Name = ''testcluster'',
      cluster_Status = ''ACTIVE'',
      cluster_Logging =
        [\<lparr>Enabled = Some True, Types = [Some ''api'', Some ''audit'']\<rparr>,
         \<lparr>Enabled = Some False,
          Types = [Some ''controllerManager'', Some ''authenticator'', Some ''scheduler'']\<rparr>]\<rparr>"

definition testProvider :: ClusterProvider where
  "testProvider =
     \<lparr>provider_Region = ''us-west-2'',
      provider_WaitTimeout = 1500000000000,
      EKS_DescribeCluster = (\<lambda>region name. Inr testCluster),
      EKS_UpdateClusterConfig = (\<lambda>region input.
         Inr \<lparr>update_Id = ''u123'', update_Type = ''LoggingUpdate''\<rparr>),
      EKS_ListClusters = (\<lambda>region input. Inr \<lparr>Clusters = [], output_NextToken = None\<rparr>),
      waiters_Wait = (\<lambda>name update. None)\<rparr>"

definition testCollaborators :: Collaborators where
  "testCollaborators =
     \<lparr>Load = (\<lambda>rc. (None, rc)), IsSupportedRegion = True, CheckAuth = None,
      LogObj = (\<lambda>cfg. None)\<rparr>"

definition testConfig :: "string list \<Rightarrow> ClusterConfig" where
  "testConfig types =
     \<lparr>Metadata = \<lparr>Name = ''testcluster'', Region = ''us-west-2''\<rparr>,
      CloudWatch = Some \<lparr>ClusterLogging = Some \<lparr>EnableTypes = types\<rparr>\<rparr>\<rparr>"

definition creatingProvider :: ClusterProvider where
  "creatingProvider =
     testProvider\<lparr>EKS_DescribeCluster :=
       (\<lambda>region name. Inr (testCluster\<lparr>cluster_Status := ''CREATING''\<rparr>))\<rparr>"

section \<open>Wildcard expansion and validation\<close>

lemma foldl_expandStep_wildcard:
  "''all'' \<in> set ts \<or> ''*'' \<in> set ts \<Longrightarrow>
   foldl expandStep current ts = SupportedCloudWatchClusterLoggingTypes"
  by (induction ts rule: rev_induct) (auto simp: expandStep_def)

lemma foldl_expandStep_plain:
  "''all'' \<notin> set ts \<Longrightarrow> ''*'' \<notin> set ts \<Longrightarrow> foldl expandStep current ts = current"
  by (induction ts arbitrary: current) (auto simp: expandStep_def)

lemma expandTypes_wildcard:
  "''all'' \<in> set declared \<or> ''*'' \<in> set declared \<Longrightarrow>
   expandTypes declared = SupportedCloudWatchClusterLoggingTypes"
  unfolding expandTypes_def by (rule foldl_expandStep_wildcard)

lemma expandTypes_plain:
  "''all'' \<notin> set declared \<Longrightarrow> ''*'' \<notin> set declared \<Longrightarrow> expandTypes declared = declared"
  unfolding expandTypes_def by (rule foldl_expandStep_plain)

lemma foldl_unknown_flag:
  "foldl (\<lambda>unknown knownLogType. if logType = knownLogType then False else unknown) b known
   = (b \<and> logType \<notin> set known)"
  by (induction known arbitrary: b) auto

lemma isUnknown_iff:
  "isUnknown logType \<longleftrightarrow> logType \<notin> set SupportedCloudWatchClusterLoggingTypes"
  unfolding isUnknown_def by (simp add: foldl_unknown_flag)

lemma validateTypes_members:
  "set types \<subseteq> set SupportedCloudWatchClusterLoggingTypes \<Longrightarrow> validateTypes types = None"
  by (induction types) (auto simp: isUnknown_iff)

lemma validateTypes_first_unknown:
  "set pre \<subseteq> set SupportedCloudWatchClusterLoggingTypes \<Longrightarrow>
   x \<notin> set SupportedCloudWatchClusterLoggingTypes \<Longrightarrow>
   validateTypes (pre @ x # rest) = Some (UnknownLogType x)"
  by (induction pre) (auto simp: isUnknown_iff)

lemma validateTypes_supported:
  "validateTypes SupportedCloudWatchClusterLoggingTypes = None"
  by (rule validateTypes_members) simp

text \<open>
  C1. When the declared list holds \<open>"all"\<close> or \<open>"*"\<close> at any position,
  \<open>SetClusterConfigDefaults\<close> replaces \<open>EnableTypes\<close> by the five supported types in their
  canonical order, whatever else the list held (and returns no error). When the list
  holds no wildcard and only supported names, the configuration, and so the list and
  its order, is left as it was.
\<close>

theorem SetClusterConfigDefaults_expansion:
  assumes "CloudWatch cfg = Some cw" and "ClusterLogging cw = Some cl"
  shows "(''all'' \<in> set (EnableTypes cl) \<or> ''*'' \<in> set (EnableTypes cl) \<longrightarrow>
            SetClusterConfigDefaults cfg =
              (None, cfg\<lparr>CloudWatch := Some (cw\<lparr>ClusterLogging :=
                 Some (cl\<lparr>EnableTypes :=
                   [''api'', ''audit'', ''authenticator'', ''controllerManager'',
                    ''scheduler'']\<rparr>)\<rparr>)\<rparr>))
       \<and> (''all'' \<notin> set (EnableTypes cl) \<and> ''*'' \<notin> set (EnableTypes cl)
            \<and> set (EnableTypes cl) \<subseteq> set SupportedCloudWatchClusterLoggingTypes \<longrightarrow>
            SetClusterConfigDefaults cfg = (None, cfg))"
proof (intro conjI impI)
  assume wild: "''all'' \<in> set (EnableTypes cl) \<or> ''*'' \<in> set (EnableTypes cl)"
  have "expandTypes (EnableTypes cl) = SupportedCloudWatchClusterLoggingTypes"
    using wild by (rule expandTypes_wildcard)
  then show "SetClusterConfigDefaults cfg =
      (None, cfg\<lparr>CloudWatch := Some (cw\<lparr>ClusterLogging :=
         Some (cl\<lparr>EnableTypes :=
           [''api'', ''audit'', ''authenticator'', ''controllerManager'',
            ''scheduler'']\<rparr>)\<rparr>)\<rparr>)"
    using assms validateTypes_supported
    by (simp add: SetClusterConfigDefaults_def SupportedCloudWatchClusterLoggingTypes_def)
next
  assume plain: "''all'' \<notin> set (EnableTypes cl) \<and> ''*'' \<notin> set (EnableTypes cl)
    \<and> set (EnableTypes cl) \<subseteq> set SupportedCloudWatchClusterLoggingTypes"
  then have same: "expandTypes (EnableTypes cl) = EnableTypes cl"
    by (simp add: expandTypes_plain)
  have valid: "validateTypes (EnableTypes cl) = None"
    using plain by (simp add: validateTypes_members)
  have "cfg\<lparr>CloudWatch := Some (cw\<lparr>ClusterLogging := Some (cl\<lparr>EnableTypes := EnableTypes cl\<rparr>)\<rparr>)\<rparr>
        = cfg"
    using assms by simp
  then show "SetClusterConfigDefaults cfg = (None, cfg)"
    using assms same valid by (simp add: SetClusterConfigDefaults_def)
qed

theorem SetClusterConfigDefaults_expansion_witness:
  "SetClusterConfigDefaults
     \<lparr>Metadata = \<lparr>Name = ''c1'', Region = ''us-west-2''\<rparr>,
      CloudWatch = Some \<lparr>ClusterLogging =
        Some \<lparr>EnableTypes = [''scheduler'', ''*'', ''bogus'']\<rparr>\<rparr>\<rparr>
   = (None,
      \<lparr>Metadata = \<lparr>Name = ''c1'', Region = ''us-west-2''\<rparr>,
       CloudWatch = Some \<lparr>ClusterLogging =
         Some \<lparr>EnableTypes =
           [''api'', ''audit'', ''authenticator'', ''controllerManager'', ''scheduler'']\<rparr>\<rparr>\<rparr>)
   \<and> SetClusterConfigDefaults
     \<lparr>Metadata = \<lparr>Name = ''c1'', Region = ''us-west-2''\<rparr>,
      CloudWatch = Some \<lparr>ClusterLogging =
        Some \<lparr>EnableTypes = [''scheduler'', ''api'']\<rparr>\<rparr>\<rparr>
   = (None,
      \<lparr>Metadata = \<lparr>Name = ''c1'', Region = ''us-west-2''\<rparr>,
       CloudWatch = Some \<lparr>ClusterLogging =
         Some \<lparr>EnableTypes = [''scheduler'', ''api'']\<rparr>\<rparr>\<rparr>)"
  using
    SetClusterConfigDefaults_expansion
      [of "\<lparr>Metadata = \<lparr>Name = ''c1'', Region = ''us-west-2''\<rparr>,
            CloudWatch = Some \<lparr>ClusterLogging =
              Some \<lparr>EnableTypes = [''scheduler'', ''*'', ''bogus'']\<rparr>\<rparr>\<rparr>"
          "\<lparr>ClusterLogging = Some \<lparr>EnableTypes = [''scheduler'', ''*'', ''bogus'']\<rparr>\<rparr>"
          "\<lparr>EnableTypes = [''scheduler'', ''*'', ''bogus'']\<rparr>"]
    SetClusterConfigDefaults_expansion
      [of "\<lparr>Metadata = \<lparr>Name = ''c1'', Region = ''us-west-2''\<rparr>,
            CloudWatch = Some \<lparr>ClusterLogging =
              Some \<lparr>EnableTypes = [''scheduler'', ''api'']\<rparr>\<rparr>\<rparr>"
          "\<lparr>ClusterLogging = Some \<lparr>EnableTypes = [''scheduler'', ''api'']\<rparr>\<rparr>"
          "\<lparr>EnableTypes = [''scheduler'', ''api'']\<rparr>"]
  by (simp add: SupportedCloudWatchClusterLoggingTypes_def)

text \<open>
  C2. After the expansion, \<open>SetClusterConfigDefaults\<close> checks every entry of the list
  against the supported types. The first entry that is not supported makes the call
  return the unknown-log-type error carrying that very entry; the check also runs on a
  list without wildcard, which the expansion leaves as declared; and the call returns
  no error when every entry is supported.
\<close>

theorem SetClusterConfigDefaults_validation:
  assumes "CloudWatch cfg = Some cw" and "ClusterLogging cw = Some cl"
  shows "(\<forall>pre x rest.
            expandTypes (EnableTypes cl) = pre @ x # rest
            \<and> set pre \<subseteq> set SupportedCloudWatchClusterLoggingTypes
            \<and> x \<notin> set SupportedCloudWatchClusterLoggingTypes \<longrightarrow>
            fst (SetClusterConfigDefaults cfg) = Some (UnknownLogType x))
       \<and> (''all'' \<notin> set (EnableTypes cl) \<and> ''*'' \<notin> set (EnableTypes cl) \<longrightarrow>
            expandTypes (EnableTypes cl) = EnableTypes cl)
       \<and> (set (expandTypes (EnableTypes cl)) \<subseteq> set SupportedCloudWatchClusterLoggingTypes \<longrightarrow>
            fst (SetClusterConfigDefaults cfg) = None)"
proof -
  have run: "fst (SetClusterConfigDefaults cfg) = validateTypes (expandTypes (EnableTypes cl))"
    using assms by (simp add: SetClusterConfigDefaults_def Let_def)
  show ?thesis
    unfolding run
    by (auto simp: validateTypes_first_unknown validateTypes_members expandTypes_plain)
qed

theorem SetClusterConfigDefaults_validation_witness:
  "fst (SetClusterConfigDefaults
     \<lparr>Metadata = \<lparr>Name = ''c1'', Region = ''us-west-2''\<rparr>,
      CloudWatch = Some \<lparr>ClusterLogging =
        Some \<lparr>EnableTypes = [''api'', ''anything'', ''bogus'']\<rparr>\<rparr>\<rparr>)
   = Some (UnknownLogType ''anything'')
   \<and> fst (SetClusterConfigDefaults
     \<lparr>Metadata = \<lparr>Name = ''c1'', Region = ''us-west-2''\<rparr>,
      CloudWatch = Some \<lparr>ClusterLogging =
        Some \<lparr>EnableTypes = [''audit'', ''api'']\<rparr>\<rparr>\<rparr>)
   = None"
proof -
  let ?types = "[''api'', ''anything'', ''bogus'']"
  let ?cl = "\<lparr>EnableTypes = ?types\<rparr>"
  let ?cw = "\<lparr>ClusterLogging = Some ?cl\<rparr>"
  let ?cfg = "\<lparr>Metadata = \<lparr>Name = ''c1'', Region = ''us-west-2''\<rparr>, CloudWatch = Some ?cw\<rparr>"
  let ?cl2 = "\<lparr>EnableTypes = [''audit'', ''api'']\<rparr>"
  let ?cw2 = "\<lparr>ClusterLogging = Some ?cl2\<rparr>"
  let ?cfg2 = "\<lparr>Metadata = \<lparr>Name = ''c1'', Region = ''us-west-2''\<rparr>, CloudWatch = Some ?cw2\<rparr>"
  have plain: "expandTypes ?types = [''api''] @ ''anything'' # [''bogus'']"
    by (simp add: expandTypes_def expandStep_def)
  have plain2: "expandTypes [''audit'', ''api''] = [''audit'', ''api'']"
    by (simp add: expandTypes_def expandStep_def)
  have first: "fst (SetClusterConfigDefaults ?cfg) = Some (UnknownLogType ''anything'')"
    by (rule SetClusterConfigDefaults_validation
          [of ?cfg ?cw ?cl, THEN conjunct1, rule_format,
           of "[''api'']" "''anything''" "[''bogus'']"])
       (simp_all add: plain SupportedCloudWatchClusterLoggingTypes_def)
  have second: "fst (SetClusterConfigDefaults ?cfg2) = None"
    by (rule SetClusterConfigDefaults_validation
          [of ?cfg2 ?cw2 ?cl2, THEN conjunct2, THEN conjunct2, rule_format])
       (simp_all add: plain2 SupportedCloudWatchClusterLoggingTypes_def)
  show ?thesis using first second by simp
qed

section \<open>Listing clusters page by page and region by region\<close>

text \<open>
  One unfolding of the page loop for each of the three answers of the service, and the
  run along a script of pages.
\<close>

lemma clusterMetas_append:
  "clusterMetas c (xs @ ys) = clusterMetas c xs @ clusterMetas c ys"
  by (simp add: clusterMetas_def)

lemma listPages_continue:
  assumes "EKS_ListClusters c (provider_Region c) (listInput n token)
             = Inr \<lparr>Clusters = names, output_NextToken = Some nxt\<rparr>"
    and "nxt \<noteq> []"
  shows "listPages c n token allClusters trace =
         listPages c n nxt (allClusters @ clusterMetas c names)
           (trace @ listCalls c n [token])"
  using assms
  by (subst listPages.simps)
     (simp add: getClustersRequest_def IsSetAndNonEmptyString_def listCalls_def)

lemma listPages_last:
  assumes "EKS_ListClusters c (provider_Region c) (listInput n token) = Inr out"
    and "\<not> IsSetAndNonEmptyString (output_NextToken out)"
  shows "listPages c n token allClusters trace =
         Some (None, allClusters @ clusterMetas c (Clusters out), trace @ listCalls c n [token])"
  using assms
  by (subst listPages.simps) (simp add: getClustersRequest_def listCalls_def)

lemma listPages_error:
  assumes "EKS_ListClusters c (provider_Region c) (listInput n token) = Inl err"
  shows "listPages c n token allClusters trace =
         Some (Some (Wrap err ''listing control planes''), allClusters,
               trace @ listCalls c n [token])"
  using assms
  by (subst listPages.simps) (simp add: getClustersRequest_def listCalls_def)

lemma listPages_follow:
  "pagesFrom c n token pages \<Longrightarrow>
   listPages c n token allClusters trace =
   listPages c n (last (token # map snd pages))
     (allClusters @ clusterMetas c (concat (map fst pages)))
     (trace @ listCalls c n (butlast (token # map snd pages)))"
proof (induction pages arbitrary: token allClusters trace)
  case Nil
  then show ?case by (simp add: clusterMetas_def listCalls_def)
next
  case (Cons page later)
  obtain names nxt where page: "page = (names, nxt)" by (cases page)
  from Cons.prems page have
    answer: "EKS_ListClusters c (provider_Region c) (listInput n token)
               = Inr \<lparr>Clusters = names, output_NextToken = Some nxt\<rparr>"
    and nonempty: "nxt \<noteq> []" and rest: "pagesFrom c n nxt later"
    by simp_all
  have "listPages c n token allClusters trace =
        listPages c n nxt (allClusters @ clusterMetas c names) (trace @ listCalls c n [token])"
    using answer nonempty by (rule listPages_continue)
  also have "\<dots> = listPages c n (last (nxt # map snd later))
      ((allClusters @ clusterMetas c names) @ clusterMetas c (concat (map fst later)))
      ((trace @ listCalls c n [token]) @ listCalls c n (butlast (nxt # map snd later)))"
    using rest by (rule Cons.IH)
  finally show ?case
    by (simp add: page clusterMetas_append listCalls_def)
qed

lemma tokens_split:
  "butlast (token # tokens) @ [last (token # tokens)] = token # tokens"
  by (rule append_butlast_last_id) simp

lemma listCalls_append:
  "listCalls c n (xs @ ys) = listCalls c n xs @ listCalls c n ys"
  by (simp add: listCalls_def)

lemma listPages_run_last:
  assumes "pagesFrom c n [] pages"
    and "EKS_ListClusters c (provider_Region c) (listInput n (last ([] # map snd pages))) = Inr out"
    and "\<not> IsSetAndNonEmptyString (output_NextToken out)"
  shows "listPages c n [] allClusters trace =
         Some (None, allClusters @ clusterMetas c (concat (map fst pages) @ Clusters out),
               trace @ listCalls c n ([] # map snd pages))"
proof -
  have "listPages c n [] allClusters trace =
        listPages c n (last ([] # map snd pages))
          (allClusters @ clusterMetas c (concat (map fst pages)))
          (trace @ listCalls c n (butlast ([] # map snd pages)))"
    using assms(1) by (rule listPages_follow)
  also have "\<dots> = Some (None,
        (allClusters @ clusterMetas c (concat (map fst pages))) @ clusterMetas c (Clusters out),
        (trace @ listCalls c n (butlast ([] # map snd pages)))
          @ listCalls c n [last ([] # map snd pages)])"
    using assms(2,3) by (rule listPages_last)
  finally show ?thesis
    by (simp only: append_assoc clusterMetas_append [symmetric] listCalls_append [symmetric]
          tokens_split)
qed

lemma listPages_run_error:
  assumes "pagesFrom c n [] pages"
    and "EKS_ListClusters c (provider_Region c) (listInput n (last ([] # map snd pages))) = Inl err"
  shows "listPages c n [] allClusters trace =
         Some (Some (Wrap err ''listing control planes''),
               allClusters @ clusterMetas c (concat (map fst pages)),
               trace @ listCalls c n ([] # map snd pages))"
proof -
  have "listPages c n [] allClusters trace =
        listPages c n (last ([] # map snd pages))
          (allClusters @ clusterMetas c (concat (map fst pages)))
          (trace @ listCalls c n (butlast ([] # map snd pages)))"
    using assms(1) by (rule listPages_follow)
  also have "\<dots> = Some (Some (Wrap err ''listing control planes''),
        allClusters @ clusterMetas c (concat (map fst pages)),
        (trace @ listCalls c n (butlast ([] # map snd pages)))
          @ listCalls c n [last ([] # map snd pages)])"
    using assms(2) by (rule listPages_error)
  finally show ?thesis
    by (simp only: append_assoc listCalls_append [symmetric] tokens_split)
qed

lemma listPages_region:
  assumes "regionListing c n region pages final"
  shows "listPages (New c region) n [] allClusters trace =
         Some (case final of Inl err \<Rightarrow> Some (Wrap err ''listing control planes'')
                 | Inr names \<Rightarrow> None,
               allClusters @ regionItems region pages final,
               trace @ listCalls (New c region) n ([] # map snd pages))"
proof (cases "EKS_ListClusters c region (listInput n (last ([] # map snd pages)))")
  case (Inl err)
  with assms have final: "final = Inl err" and chain: "pagesFrom (New c region) n [] pages"
    by (simp_all add: regionListing_def)
  have "EKS_ListClusters (New c region) (provider_Region (New c region))
          (listInput n (last ([] # map snd pages))) = Inl err"
    using Inl by (simp add: New_def)
  with chain show ?thesis
    by (simp add: listPages_run_error final regionItems_def clusterMetas_def New_def)
next
  case (Inr out)
  with assms have final: "final = Inr (Clusters out)"
    and stop: "\<not> IsSetAndNonEmptyString (output_NextToken out)"
    and chain: "pagesFrom (New c region) n [] pages"
    by (simp_all add: regionListing_def)
  have "EKS_ListClusters (New c region) (provider_Region (New c region))
          (listInput n (last ([] # map snd pages))) = Inr out"
    using Inr by (simp add: New_def)
  with chain stop show ?thesis
    by (simp add: listPages_run_last final regionItems_def clusterMetas_def New_def)
qed

lemma listEachRegion_runs:
  "list_all2 (\<lambda>region (pages, final). regionListing c n region pages final) regions runs \<Longrightarrow>
   listEachRegion c regions n allClusters trace =
   Some (allClusters
           @ concat (map2 (\<lambda>region (pages, final). regionItems region pages final) regions runs),
         trace
           @ concat (map2 (\<lambda>region (pages, final). regionTrace c n region pages final)
               regions runs))"
proof (induction regions runs arbitrary: allClusters trace rule: list_all2_induct)
  case Nil
  then show ?case by simp
next
  case (Cons region regions run runs)
  obtain pages final where run: "run = (pages, final)" by (cases run)
  from Cons.hyps(1) run have listing: "regionListing c n region pages final" by simp
  show ?case
  proof (cases final)
    case (Inl err)
    then show ?thesis
      using listPages_region [OF listing] Cons.IH
      by (simp add: run regionTrace_def)
  next
    case (Inr names)
    then show ?thesis
      using listPages_region [OF listing] Cons.IH
      by (simp add: run regionTrace_def)
  qed
qed

text \<open>
  C7. In a single region \<open>doListClusters\<close> sends its first request without a token,
  then one request for each non-empty token the service returns, and appends the names
  page by page in the order of arrival. It stops at the first answer whose token is
  absent or empty and returns no error; an error of the service ends the loop at once:
  it is returned (wrapped by \<open>getClustersRequest\<close>), and the trace shows no request
  after the failing one.
\<close>

theorem doListClusters_pages:
  assumes "pagesFrom c n [] pages"
  shows "(EKS_ListClusters c (provider_Region c) (listInput n (last ([] # map snd pages)))
            = Inr out
          \<and> \<not> IsSetAndNonEmptyString (output_NextToken out) \<longrightarrow>
            doListClusters c regions n allClusters False =
              Some (None, allClusters @ clusterMetas c (concat (map fst pages) @ Clusters out),
                    listCalls c n ([] # map snd pages)))
       \<and> (EKS_ListClusters c (provider_Region c) (listInput n (last ([] # map snd pages)))
            = Inl err \<longrightarrow>
            doListClusters c regions n allClusters False =
              Some (Some (Wrap err ''listing control planes''),
                    allClusters @ clusterMetas c (concat (map fst pages)),
                    listCalls c n ([] # map snd pages)))
       \<and> listInput n [] = \<lparr>MaxResults = n, NextToken = None\<rparr>"
  using listPages_run_last [OF assms, of out allClusters "[]"]
    listPages_run_error [OF assms, of err allClusters "[]"]
  by (simp add: doListClusters_def listInput_def)

theorem doListClusters_pages_witness:
  "doListClusters pagedProvider [] 100 [] False =
     Some (None,
           [\<lparr>Name = ''a'', Region = ''us-west-2''\<rparr>, \<lparr>Name = ''b'', Region = ''us-west-2''\<rparr>,
            \<lparr>Name = ''c'', Region = ''us-west-2''\<rparr>],
           [Call_ListClusters ''us-west-2'' \<lparr>MaxResults = 100, NextToken = None\<rparr>,
            Call_ListClusters ''us-west-2'' \<lparr>MaxResults = 100, NextToken = Some ''t1''\<rparr>])
   \<and> doListClusters flakyProvider [] 100 [] False =
     Some (Some (Wrap (External ''throttled'') ''listing control planes''),
           [\<lparr>Name = ''a'', Region = ''us-east-1''\<rparr>],
           [Call_ListClusters ''us-east-1'' \<lparr>MaxResults = 100, NextToken = None\<rparr>,
            Call_ListClusters ''us-east-1'' \<lparr>MaxResults = 100, NextToken = Some ''t1''\<rparr>])"
proof -
  have chain1: "pagesFrom pagedProvider 100 [] [([''a'', ''b''], ''t1'')]"
    by (simp add: pagedProvider_def listInput_def)
  have chain2: "pagesFrom flakyProvider 100 [] [([''a''], ''t1'')]"
    by (simp add: flakyProvider_def listInput_def)
  have first: "doListClusters pagedProvider [] 100 [] False =
     Some (None,
           [\<lparr>Name = ''a'', Region = ''us-west-2''\<rparr>, \<lparr>Name = ''b'', Region = ''us-west-2''\<rparr>,
            \<lparr>Name = ''c'', Region = ''us-west-2''\<rparr>],
           [Call_ListClusters ''us-west-2'' \<lparr>MaxResults = 100, NextToken = None\<rparr>,
            Call_ListClusters ''us-west-2'' \<lparr>MaxResults = 100, NextToken = Some ''t1''\<rparr>])"
    using doListClusters_pages
      [OF chain1, of "\<lparr>Clusters = [''c''], output_NextToken = Some []\<rparr>" "[]" "[]",
       THEN conjunct1]
    by (simp add: pagedProvider_def listInput_def IsSetAndNonEmptyString_def
          clusterMetas_def listCalls_def)
  have second: "doListClusters flakyProvider [] 100 [] False =
     Some (Some (Wrap (External ''throttled'') ''listing control planes''),
           [\<lparr>Name = ''a'', Region = ''us-east-1''\<rparr>],
           [Call_ListClusters ''us-east-1'' \<lparr>MaxResults = 100, NextToken = None\<rparr>,
            Call_ListClusters ''us-east-1'' \<lparr>MaxResults = 100, NextToken = Some ''t1''\<rparr>])"
    using doListClusters_pages
      [OF chain2, of _ "[]" "[]" "External ''throttled''", THEN conjunct2, THEN conjunct1]
    by (simp add: flakyProvider_def listInput_def clusterMetas_def listCalls_def)
  show ?thesis using first second by simp
qed

text \<open>
  C6, as stated, fails: a region whose second page fails has its first page already
  appended to the shared list, and the entries stay there. Here \<open>us-east-1\<close> returns
  one page and then an error; the aggregate holds the entry of that page beside the
  entry of the succeeding region \<open>us-west-2\<close>.
\<close>

theorem doListClusters_eachRegion_keeps_partial:
  "doListClusters (New flakyProvider ''us-east-1'') [] 100 [] False =
     Some (Some (Wrap (External ''throttled'') ''listing control planes''),
           [\<lparr>Name = ''a'', Region = ''us-east-1''\<rparr>],
           [Call_ListClusters ''us-east-1'' \<lparr>MaxResults = 100, NextToken = None\<rparr>,
            Call_ListClusters ''us-east-1'' \<lparr>MaxResults = 100, NextToken = Some ''t1''\<rparr>])
   \<and> doListClusters flakyProvider [''us-east-1'', ''us-west-2''] 100 [] True =
     Some (None,
           [\<lparr>Name = ''a'', Region = ''us-east-1''\<rparr>, \<lparr>Name = ''b'', Region = ''us-west-2''\<rparr>],
           [Call_ListClusters ''us-east-1'' \<lparr>MaxResults = 100, NextToken = None\<rparr>,
            Call_ListClusters ''us-east-1'' \<lparr>MaxResults = 100, NextToken = Some ''t1''\<rparr>,
            Log_Critical_listing ''us-east-1''
              (Wrap (External ''throttled'') ''listing control planes''),
            Call_ListClusters ''us-west-2'' \<lparr>MaxResults = 100, NextToken = None\<rparr>])"
proof -
  have east: "regionListing flakyProvider 100 ''us-east-1'' [([''a''], ''t1'')]
                (Inl (External ''throttled''))"
    by (simp add: regionListing_def flakyProvider_def New_def listInput_def)
  have west: "regionListing flakyProvider 100 ''us-west-2'' [] (Inr [''b''])"
    by (simp add: regionListing_def flakyProvider_def New_def listInput_def
          IsSetAndNonEmptyString_def)
  have single: "listPages (New flakyProvider ''us-east-1'') 100 [] [] [] =
     Some (Some (Wrap (External ''throttled'') ''listing control planes''),
           [\<lparr>Name = ''a'', Region = ''us-east-1''\<rparr>],
           [Call_ListClusters ''us-east-1'' \<lparr>MaxResults = 100, NextToken = None\<rparr>,
            Call_ListClusters ''us-east-1'' \<lparr>MaxResults = 100, NextToken = Some ''t1''\<rparr>])"
    using listPages_region [OF east, of "[]" "[]"]
    by (simp add: regionItems_def listCalls_def New_def flakyProvider_def listInput_def)
  have runs: "list_all2 (\<lambda>region (pages, final). regionListing flakyProvider 100 region pages final)
      [''us-east-1'', ''us-west-2'']
      [([([''a''], ''t1'')], Inl (External ''throttled'')), ([], Inr [''b''])]"
    using east west by simp
  have all: "listEachRegion flakyProvider [''us-east-1'', ''us-west-2''] 100 [] [] =
     Some ([\<lparr>Name = ''a'', Region = ''us-east-1''\<rparr>, \<lparr>Name = ''b'', Region = ''us-west-2''\<rparr>],
           [Call_ListClusters ''us-east-1'' \<lparr>MaxResults = 100, NextToken = None\<rparr>,
            Call_ListClusters ''us-east-1'' \<lparr>MaxResults = 100, NextToken = Some ''t1''\<rparr>,
            Log_Critical_listing ''us-east-1''
              (Wrap (External ''throttled'') ''listing control planes''),
            Call_ListClusters ''us-west-2'' \<lparr>MaxResults = 100, NextToken = None\<rparr>])"
    using listEachRegion_runs [OF runs, of "[]" "[]"]
    by (simp add: regionItems_def regionTrace_def listCalls_def New_def flakyProvider_def
          listInput_def)
  show ?thesis using single all by (simp add: doListClusters_def)
qed

text \<open>
  C6, amended. When every region's listing ends, with a last page or with an error,
  \<open>doListClusters\<close> over all regions logs the error of each failing region, goes on
  with the remaining regions and returns no error. The aggregate is the concatenation,
  in the order of the regions, of the entries of all pages of the succeeding regions and
  of the pages that a failing region returned before its error.
\<close>

theorem doListClusters_eachRegion:
  assumes "list_all2 (\<lambda>region (pages, final). regionListing c n region pages final)
             regions runs"
  shows "doListClusters c regions n allClusters True =
         Some (None,
               allClusters
                 @ concat (map2 (\<lambda>region (pages, final). regionItems region pages final)
                     regions runs),
               concat (map2 (\<lambda>region (pages, final). regionTrace c n region pages final)
                 regions runs))"
  using listEachRegion_runs [OF assms, of allClusters "[]"]
  by (simp add: doListClusters_def)

theorem doListClusters_eachRegion_witness:
  "doListClusters flakyProvider [''us-west-2'', ''us-east-1'', ''eu-west-1''] 100 [] True =
     Some (None,
           [\<lparr>Name = ''b'', Region = ''us-west-2''\<rparr>, \<lparr>Name = ''a'', Region = ''us-east-1''\<rparr>,
            \<lparr>Name = ''b'', Region = ''eu-west-1''\<rparr>],
           [Call_ListClusters ''us-west-2'' \<lparr>MaxResults = 100, NextToken = None\<rparr>,
            Call_ListClusters ''us-east-1'' \<lparr>MaxResults = 100, NextToken = None\<rparr>,
            Call_ListClusters ''us-east-1'' \<lparr>MaxResults = 100, NextToken = Some ''t1''\<rparr>,
            Log_Critical_listing ''us-east-1''
              (Wrap (External ''throttled'') ''listing control planes''),
            Call_ListClusters ''eu-west-1'' \<lparr>MaxResults = 100, NextToken = None\<rparr>])"
proof -
  have east: "regionListing flakyProvider 100 ''us-east-1'' [([''a''], ''t1'')]
                (Inl (External ''throttled''))"
    by (simp add: regionListing_def flakyProvider_def New_def listInput_def)
  have west: "regionListing flakyProvider 100 ''us-west-2'' [] (Inr [''b''])"
    by (simp add: regionListing_def flakyProvider_def New_def listInput_def
          IsSetAndNonEmptyString_def)
  have eu: "regionListing flakyProvider 100 ''eu-west-1'' [] (Inr [''b''])"
    by (simp add: regionListing_def flakyProvider_def New_def listInput_def
          IsSetAndNonEmptyString_def)
  have runs: "list_all2 (\<lambda>region (pages, final). regionListing flakyProvider 100 region pages final)
      [''us-west-2'', ''us-east-1'', ''eu-west-1'']
      [([], Inr [''b'']), ([([''a''], ''t1'')], Inl (External ''throttled'')), ([], Inr [''b''])]"
    using east west eu by simp
  show ?thesis
    using doListClusters_eachRegion [OF runs, of "[]"]
    by (simp add: regionItems_def regionTrace_def listCalls_def New_def flakyProvider_def
          listInput_def)
qed

section \<open>Reconciling the logging configuration\<close>

text \<open>
  The operations on string sets as operations on finite sets.
\<close>

lemma foldl_finsert: "foldl (\<lambda>s item. finsert item s) s items = s |\<union>| fset_of_list items"
  by (induction items arbitrary: s) auto

lemma NewString_eq: "NewString items = fset_of_list items"
  by (simp add: NewString_def foldl_finsert)

lemma Insert_eq: "Insert s items = s |\<union>| fset_of_list items"
  by (simp add: Insert_def foldl_finsert)

lemma Equal_iff: "Equal s1 s2 \<longleftrightarrow> s1 = s2"
proof
  assume eq: "Equal s1 s2"
  then have sub: "s2 |\<subseteq>| s1"
    by (auto simp: Equal_def IsSuperset_def Has_def)
  from eq have "fcard s1 \<le> fcard s2"
    by (simp add: Equal_def)
  with sub have "s2 = s1" by (rule fcard_seteq)
  then show "s1 = s2" by simp
next
  assume "s1 = s2"
  then show "Equal s1 s2"
    by (simp add: Equal_def IsSuperset_def Has_def)
qed

lemma Difference_eq: "Difference s s2 = s |-| s2"
  by (auto simp: Difference_def Has_def)

lemma updateRequired_iff:
  "updateRequired currentlyEnabled shouldEnable \<longleftrightarrow> currentlyEnabled \<noteq> shouldEnable"
  by (simp add: updateRequired_def Equal_iff)

lemma UpdateClusterConfigForLogging_request:
  "\<exists>rest. snd (UpdateClusterConfigForLogging c cfg)
     = Call_UpdateClusterConfig (provider_Region c) (updateInput cfg) # rest"
  by (simp add: UpdateClusterConfigForLogging_def Let_def split: sum.split option.split)

lemma doEnableLogging_compare:
  assumes "Load env rc0 = (None, rc)"
    and "SetClusterConfigDefaults (rc_ClusterConfig rc) = (None, cfg)"
    and "IsSupportedRegion env"
    and "CheckAuth env = None"
    and "GetCurrentClusterConfigForLogging ctl (Metadata (rc_ClusterConfig rc))
           = Inr (currentlyEnabled, currentlyDisabled)"
    and "LogObj env cfg = None"
  shows "doEnableLogging env ctl rc0 =
     (let meta = Metadata (rc_ClusterConfig rc);
          shouldEnable = shouldEnableSet cfg;
          shouldDisable = shouldDisableSet shouldEnable
      in if currentlyEnabled \<noteq> shouldEnable
         then
           let intended =
                 Log_IntendedAction (Plan rc) (Name meta) (Region meta)
                   (if length (List_of shouldEnable) > 0
                    then ''enable types: '' @ Join (List_of shouldEnable) '', ''
                    else ''no types to enable'')
                   (if length (List_of shouldDisable) > 0
                    then ''disable types: '' @ Join (List_of shouldDisable) '', ''
                    else ''no types to disable'')
           in if \<not> Plan rc
              then (fst (UpdateClusterConfigForLogging ctl cfg),
                    intended # snd (UpdateClusterConfigForLogging ctl cfg))
              else (None, [intended, Log_PlanModeWarning])
         else (None, [Log_Success_upToDate (Name meta) (Region meta)]))"
  using assms
  by (simp add: doEnableLogging_def updateRequired_iff Let_def
        split: prod.split option.split)

text \<open>
  C3. In \<open>doEnableLogging\<close>, \<open>updateRequired\<close> is false exactly when the set of the
  types currently enabled equals the set of the types to enable, for every pair of sets
  (the empty ones included); the set to enable is the set of the entries of the declared
  list, whatever their order. In a run that reaches the comparison, the update request
  is sent only when the two sets differ (and the command is not in plan mode); when
  they are equal the command only reports that the configuration is up to date.
\<close>

theorem doEnableLogging_changed:
  assumes "Load env rc0 = (None, rc)"
    and "SetClusterConfigDefaults (rc_ClusterConfig rc) = (None, cfg)"
    and "IsSupportedRegion env"
    and "CheckAuth env = None"
    and "GetCurrentClusterConfigForLogging ctl (Metadata (rc_ClusterConfig rc))
           = Inr (currentlyEnabled, currentlyDisabled)"
    and "LogObj env cfg = None"
  shows "(\<forall>observed desired. updateRequired observed desired \<longleftrightarrow> observed \<noteq> desired)
       \<and> (CloudWatch cfg = Some cw \<and> ClusterLogging cw = Some cl \<longrightarrow>
            shouldEnableSet cfg = fset_of_list (EnableTypes cl))
       \<and> ((\<exists>region input. Call_UpdateClusterConfig region input
              \<in> set (snd (doEnableLogging env ctl rc0)))
            \<longleftrightarrow> currentlyEnabled \<noteq> shouldEnableSet cfg \<and> \<not> Plan rc)
       \<and> (currentlyEnabled = shouldEnableSet cfg \<longrightarrow>
            doEnableLogging env ctl rc0 =
              (None, [Log_Success_upToDate (Name (Metadata (rc_ClusterConfig rc)))
                        (Region (Metadata (rc_ClusterConfig rc)))]))"
proof (intro conjI)
  show "\<forall>observed desired. updateRequired observed desired \<longleftrightarrow> observed \<noteq> desired"
    by (simp add: updateRequired_iff)
  show "CloudWatch cfg = Some cw \<and> ClusterLogging cw = Some cl \<longrightarrow>
          shouldEnableSet cfg = fset_of_list (EnableTypes cl)"
    by (simp add: shouldEnableSet_def NewString_eq Insert_eq)
  note run = doEnableLogging_compare [OF assms]
  obtain rest where request: "snd (UpdateClusterConfigForLogging ctl cfg)
      = Call_UpdateClusterConfig (provider_Region ctl) (updateInput cfg) # rest"
    using UpdateClusterConfigForLogging_request by blast
  show "(\<exists>region input. Call_UpdateClusterConfig region input
            \<in> set (snd (doEnableLogging env ctl rc0)))
          \<longleftrightarrow> currentlyEnabled \<noteq> shouldEnableSet cfg \<and> \<not> Plan rc"
    unfolding run using request by (auto simp: Let_def)
  show "currentlyEnabled = shouldEnableSet cfg \<longrightarrow>
          doEnableLogging env ctl rc0 =
            (None, [Log_Success_upToDate (Name (Metadata (rc_ClusterConfig rc)))
                      (Region (Metadata (rc_ClusterConfig rc)))])"
    unfolding run by (simp add: Let_def)
qed

lemma testProvider_current:
  "GetCurrentClusterConfigForLogging testProvider \<lparr>Name = ''testcluster'', Region = ''us-west-2''\<rparr>
   = Inr ({|''api'', ''audit''|}, {|''controllerManager'', ''authenticator'', ''scheduler''|})"
  by (auto simp: GetCurrentClusterConfigForLogging_def DescribeControlPlaneMustBeActive_def
        DescribeControlPlane_def testProvider_def testCluster_def ClusterStatusActive_def
        IsEnabled_def IsDisabled_def Insert_eq NewString_eq)

theorem doEnableLogging_changed_witness:
  "updateRequired {|''api'', ''audit''|}
     (shouldEnableSet (testConfig [''controllerManager'', ''authenticator'']))
   \<and> (\<exists>region input. Call_UpdateClusterConfig region input
         \<in> set (snd (doEnableLogging testCollaborators testProvider
              \<lparr>rc_ClusterConfig = testConfig [''controllerManager'', ''authenticator''],
               Plan = False\<rparr>)))
   \<and> shouldEnableSet (testConfig [''audit'', ''api'']) = fset_of_list [''audit'', ''api'']
   \<and> \<not> updateRequired {|''api'', ''audit''|} (shouldEnableSet (testConfig [''audit'', ''api'']))
   \<and> doEnableLogging testCollaborators testProvider
         \<lparr>rc_ClusterConfig = testConfig [''audit'', ''api''], Plan = False\<rparr>
       = (None, [Log_Success_upToDate ''testcluster'' ''us-west-2''])"
proof -
  let ?differ = "testConfig [''controllerManager'', ''authenticator'']"
  let ?same = "testConfig [''audit'', ''api'']"
  have load: "\<And>rc. Load testCollaborators rc = (None, rc)"
    and region: "IsSupportedRegion testCollaborators"
    and auth: "CheckAuth testCollaborators = None"
    and logobj: "\<And>cfg. LogObj testCollaborators cfg = None"
    by (simp_all add: testCollaborators_def)
  have defaults1: "SetClusterConfigDefaults ?differ = (None, ?differ)"
    by (simp add: SetClusterConfigDefaults_def testConfig_def expandTypes_def expandStep_def
          isUnknown_def SupportedCloudWatchClusterLoggingTypes_def)
  have defaults2: "SetClusterConfigDefaults ?same = (None, ?same)"
    by (simp add: SetClusterConfigDefaults_def testConfig_def expandTypes_def expandStep_def
          isUnknown_def SupportedCloudWatchClusterLoggingTypes_def)
  have current1: "GetCurrentClusterConfigForLogging testProvider
        (Metadata (rc_ClusterConfig \<lparr>rc_ClusterConfig = ?differ, Plan = False\<rparr>))
      = Inr ({|''api'', ''audit''|}, {|''controllerManager'', ''authenticator'', ''scheduler''|})"
    using testProvider_current by (simp add: testConfig_def)
  have current2: "GetCurrentClusterConfigForLogging testProvider
        (Metadata (rc_ClusterConfig \<lparr>rc_ClusterConfig = ?same, Plan = False\<rparr>))
      = Inr ({|''api'', ''audit''|}, {|''controllerManager'', ''authenticator'', ''scheduler''|})"
    using testProvider_current by (simp add: testConfig_def)
  have desired1: "shouldEnableSet ?differ = {|''controllerManager'', ''authenticator''|}"
    by (simp add: shouldEnableSet_def testConfig_def NewString_eq Insert_eq)
  have desired2: "shouldEnableSet ?same = {|''api'', ''audit''|}"
    by (auto simp: shouldEnableSet_def testConfig_def NewString_eq Insert_eq)
  have ne: "{|''api'', ''audit''|} \<noteq> {|''controllerManager'', ''authenticator''|}"
    by code_simp
  note differ = doEnableLogging_changed
    [of testCollaborators "\<lparr>rc_ClusterConfig = ?differ, Plan = False\<rparr>"
        "\<lparr>rc_ClusterConfig = ?differ, Plan = False\<rparr>" ?differ testProvider,
     OF load _ region auth current1 logobj]
  note same = doEnableLogging_changed
    [of testCollaborators "\<lparr>rc_ClusterConfig = ?same, Plan = False\<rparr>"
        "\<lparr>rc_ClusterConfig = ?same, Plan = False\<rparr>" ?same testProvider,
     OF load _ region auth current2 logobj]
  have a: "updateRequired {|''api'', ''audit''|} (shouldEnableSet ?differ)"
    using differ [THEN conjunct1] defaults1 ne by (simp add: desired1)
  have b: "\<exists>region input. Call_UpdateClusterConfig region input
         \<in> set (snd (doEnableLogging testCollaborators testProvider
              \<lparr>rc_ClusterConfig = ?differ, Plan = False\<rparr>))"
    using differ [THEN conjunct2, THEN conjunct2, THEN conjunct1] defaults1 ne
    by (simp add: desired1)
  have declared: "shouldEnableSet ?same = fset_of_list [''audit'', ''api'']"
    using same
      [of "\<lparr>ClusterLogging = Some \<lparr>EnableTypes = [''audit'', ''api'']\<rparr>\<rparr>"
          "\<lparr>EnableTypes = [''audit'', ''api'']\<rparr>",
       THEN conjunct2, THEN conjunct1]
      defaults2
    by (simp add: testConfig_def)
  have c: "\<not> updateRequired {|''api'', ''audit''|} (shouldEnableSet ?same)"
    using same [THEN conjunct1] defaults2 by (simp add: desired2)
  have "doEnableLogging testCollaborators testProvider
         \<lparr>rc_ClusterConfig = ?same, Plan = False\<rparr>
       = (None, [Log_Success_upToDate (Name (Metadata ?same)) (Region (Metadata ?same))])"
    using same [THEN conjunct2, THEN conjunct2, THEN conjunct2] defaults2
    by (simp add: desired2)
  then have d: "doEnableLogging testCollaborators testProvider
         \<lparr>rc_ClusterConfig = ?same, Plan = False\<rparr>
       = (None, [Log_Success_upToDate ''testcluster'' ''us-west-2''])"
    by (simp add: testConfig_def)
  show ?thesis using a b declared c d by blast
qed

lemma foldl_disabled:
  "foldl (\<lambda>disabled logType.
            if \<not> Has enabled logType then Insert disabled [logType] else disabled)
     disabled0 types
   = disabled0 |\<union>| (fset_of_list types |-| enabled)"
  by (induction types arbitrary: disabled0) (auto simp: Has_def Insert_eq)

lemma disabledSet_eq:
  "disabledSet enabled = fset_of_list SupportedCloudWatchClusterLoggingTypes |-| enabled"
  by (simp add: disabledSet_def foldl_disabled NewString_eq)

lemma shouldDisableSet_eq:
  "shouldDisableSet shouldEnable
   = fset_of_list SupportedCloudWatchClusterLoggingTypes |-| shouldEnable"
  by (simp add: shouldDisableSet_def Difference_eq NewString_eq)

text \<open>
  C4. The set of the types to disable, as the loop of
  \<open>UpdateClusterConfigForLogging\<close> builds it and as \<open>doEnableLogging\<close> computes it by
  \<open>Difference\<close>, is the set of the supported types minus the enabled set. For every
  enabled set within the supported types, the union of the two sets is the set of the
  supported types, and their intersection is empty.
\<close>

theorem disabled_complement:
  "disabledSet enabled = fset_of_list SupportedCloudWatchClusterLoggingTypes |-| enabled
   \<and> shouldDisableSet enabled = fset_of_list SupportedCloudWatchClusterLoggingTypes |-| enabled
   \<and> (enabled |\<subseteq>| fset_of_list SupportedCloudWatchClusterLoggingTypes \<longrightarrow>
        enabled |\<union>| disabledSet enabled = fset_of_list SupportedCloudWatchClusterLoggingTypes
        \<and> enabled |\<union>| shouldDisableSet enabled
            = fset_of_list SupportedCloudWatchClusterLoggingTypes)
   \<and> enabled |\<inter>| disabledSet enabled = {||}
   \<and> enabled |\<inter>| shouldDisableSet enabled = {||}"
  unfolding disabledSet_eq shouldDisableSet_eq by auto

theorem disabled_complement_witness:
  "disabledSet (enabledSet (testConfig [''authenticator'', ''controllerManager'']))
     = {|''api'', ''audit'', ''scheduler''|}
   \<and> shouldDisableSet (shouldEnableSet (testConfig [''authenticator'', ''controllerManager'']))
     = {|''api'', ''audit'', ''scheduler''|}
   \<and> {|''authenticator'', ''controllerManager''|} |\<union>| {|''api'', ''audit'', ''scheduler''|}
     = fset_of_list SupportedCloudWatchClusterLoggingTypes"
proof -
  have enabled: "enabledSet (testConfig [''authenticator'', ''controllerManager''])
      = {|''authenticator'', ''controllerManager''|}"
    by (auto simp: enabledSet_def testConfig_def NewString_eq Insert_eq)
  have should: "shouldEnableSet (testConfig [''authenticator'', ''controllerManager''])
      = {|''authenticator'', ''controllerManager''|}"
    by (auto simp: shouldEnableSet_def testConfig_def NewString_eq Insert_eq)
  have complement: "fset_of_list SupportedCloudWatchClusterLoggingTypes
      |-| {|''authenticator'', ''controllerManager''|} = {|''api'', ''audit'', ''scheduler''|}"
    unfolding SupportedCloudWatchClusterLoggingTypes_def by code_simp
  have subset: "{|''authenticator'', ''controllerManager''|}
      |\<subseteq>| fset_of_list SupportedCloudWatchClusterLoggingTypes"
    by (simp add: SupportedCloudWatchClusterLoggingTypes_def)
  note fact = disabled_complement [of "{|''authenticator'', ''controllerManager''|}"]
  have d1: "disabledSet {|''authenticator'', ''controllerManager''|}
      = {|''api'', ''audit'', ''scheduler''|}"
    using fact [THEN conjunct1] by (simp only: complement)
  have d2: "shouldDisableSet {|''authenticator'', ''controllerManager''|}
      = {|''api'', ''audit'', ''scheduler''|}"
    using fact [THEN conjunct2, THEN conjunct1] by (simp only: complement)
  have "{|''authenticator'', ''controllerManager''|}
      |\<union>| disabledSet {|''authenticator'', ''controllerManager''|}
      = fset_of_list SupportedCloudWatchClusterLoggingTypes"
    using fact [THEN conjunct2, THEN conjunct2, THEN conjunct1] subset by blast
  then have d3: "{|''authenticator'', ''controllerManager''|}
      |\<union>| {|''api'', ''audit'', ''scheduler''|}
      = fset_of_list SupportedCloudWatchClusterLoggingTypes"
    by (simp only: d1)
  show ?thesis
    unfolding enabled should using d1 d2 d3 by blast
qed

section \<open>The request that updates the logging configuration\<close>

text \<open>
  \<open>List\<close> of the set made from a list is the list sorted ascending without duplicates;
  it is the list itself exactly when the list is strictly ascending.
\<close>

lemma List_of_fset_of_list:
  "List_of (fset_of_list xs) = sorted_list_of_set (set xs)"
  by (simp add: List_of_def sorted_list_of_fset.rep_eq fset_of_list.rep_eq)

lemma List_of_declared_iff:
  "List_of (fset_of_list xs) = xs \<longleftrightarrow> sorted_wrt (<) xs"
proof
  assume "List_of (fset_of_list xs) = xs"
  then have "sorted_list_of_set (set xs) = xs" by (simp add: List_of_fset_of_list)
  moreover have "sorted_wrt (<) (sorted_list_of_set (set xs))"
    by (rule strict_sorted_list_of_set)
  ultimately show "sorted_wrt (<) xs" by simp
next
  assume "sorted_wrt (<) xs"
  then have "sorted xs" and "distinct xs" by (simp_all add: strict_sorted_iff)
  then show "List_of (fset_of_list xs) = xs"
    by (simp add: List_of_fset_of_list sorted_list_of_set.idem_if_sorted_distinct)
qed

lemma enabledSet_declared:
  "CloudWatch cfg = Some cw \<Longrightarrow> ClusterLogging cw = Some cl \<Longrightarrow>
   enabledSet cfg = fset_of_list (EnableTypes cl)"
  by (simp add: enabledSet_def NewString_eq Insert_eq)

text \<open>
  C5, as stated, fails: \<open>UpdateClusterConfigForLogging\<close> puts the declared names into
  a string set and passes \<open>enabled.List()\<close>, which is sorted. For the declared list
  \<open>[scheduler, api]\<close> the request carries \<open>[api, scheduler]\<close>.
\<close>

theorem UpdateClusterConfigForLogging_sorts:
  "snd (UpdateClusterConfigForLogging testProvider (testConfig [''scheduler'', ''api'']))
   = [Call_UpdateClusterConfig ''us-west-2''
        \<lparr>input_Name = ''testcluster'',
         input_Logging =
           [\<lparr>Enabled = Some True, Types = [Some ''api'', Some ''scheduler'']\<rparr>,
            \<lparr>Enabled = Some False,
             Types = [Some ''audit'', Some ''authenticator'', Some ''controllerManager'']\<rparr>]\<rparr>,
      Log_Success_configured ''testcluster'' ''us-west-2''
        ''enabled types: api, scheduler''
        ''disabled types: audit, authenticator, controllerManager'']"
proof -
  have enabled: "List_of (enabledSet (testConfig [''scheduler'', ''api'']))
      = [''api'', ''scheduler'']"
    unfolding enabledSet_def testConfig_def NewString_def Insert_def List_of_def
    by code_simp
  have disabled: "List_of (disabledSet (enabledSet (testConfig [''scheduler'', ''api''])))
      = [''audit'', ''authenticator'', ''controllerManager'']"
    unfolding enabledSet_def disabledSet_def testConfig_def NewString_def Insert_def
      List_of_def Has_def SupportedCloudWatchClusterLoggingTypes_def
    by code_simp
  show ?thesis
    by (simp add: UpdateClusterConfigForLogging_def updateInput_def Let_def enabled disabled
          StringSlice_def waitForUpdateToSucceed_def testProvider_def)
       (simp add: testConfig_def)
qed

text \<open>
  C5, amended. The first effect of \<open>UpdateClusterConfigForLogging\<close> is the update
  request, and the list of enabled types in it holds the names of the expanded or
  declared list in ascending bytewise order, without duplicates (the list of disabled
  types holds the remaining supported types, ascending). The order of the declared list
  is preserved exactly when that list is strictly ascending, as the list of the
  supported types, which replaces a wildcard, is.
\<close>

theorem UpdateClusterConfigForLogging_enabled_order:
  assumes "CloudWatch cfg = Some cw" and "ClusterLogging cw = Some cl"
  shows "(\<exists>rest. snd (UpdateClusterConfigForLogging c cfg)
            = Call_UpdateClusterConfig (provider_Region c) (updateInput cfg) # rest)
       \<and> input_Logging (updateInput cfg) =
           [\<lparr>Enabled = Some True,
             Types = StringSlice (sorted_list_of_set (set (EnableTypes cl)))\<rparr>,
            \<lparr>Enabled = Some False,
             Types = StringSlice (sorted_list_of_set
               (set SupportedCloudWatchClusterLoggingTypes - set (EnableTypes cl)))\<rparr>]
       \<and> (sorted_list_of_set (set (EnableTypes cl)) = EnableTypes cl
            \<longleftrightarrow> sorted_wrt (<) (EnableTypes cl))
       \<and> sorted_wrt (<) SupportedCloudWatchClusterLoggingTypes"
proof (intro conjI)
  show "\<exists>rest. snd (UpdateClusterConfigForLogging c cfg)
      = Call_UpdateClusterConfig (provider_Region c) (updateInput cfg) # rest"
    by (rule UpdateClusterConfigForLogging_request)
  have enabled: "List_of (enabledSet cfg) = sorted_list_of_set (set (EnableTypes cl))"
    using assms by (simp add: enabledSet_declared List_of_fset_of_list)
  have "disabledSet (enabledSet cfg)
      = fset_of_list SupportedCloudWatchClusterLoggingTypes |-| fset_of_list (EnableTypes cl)"
    using assms by (simp add: disabledSet_eq enabledSet_declared)
  then have disabled: "List_of (disabledSet (enabledSet cfg))
      = sorted_list_of_set (set SupportedCloudWatchClusterLoggingTypes - set (EnableTypes cl))"
    by (simp add: List_of_def sorted_list_of_fset.rep_eq fset_of_list.rep_eq)
  show "input_Logging (updateInput cfg) =
      [\<lparr>Enabled = Some True,
        Types = StringSlice (sorted_list_of_set (set (EnableTypes cl)))\<rparr>,
       \<lparr>Enabled = Some False,
        Types = StringSlice (sorted_list_of_set
          (set SupportedCloudWatchClusterLoggingTypes - set (EnableTypes cl)))\<rparr>]"
    by (simp add: updateInput_def Let_def enabled disabled)
  show "sorted_list_of_set (set (EnableTypes cl)) = EnableTypes cl
      \<longleftrightarrow> sorted_wrt (<) (EnableTypes cl)"
    using List_of_declared_iff [of "EnableTypes cl"] by (simp add: List_of_fset_of_list)
  show "sorted_wrt (<) SupportedCloudWatchClusterLoggingTypes"
    by (simp add: SupportedCloudWatchClusterLoggingTypes_def)
qed

theorem UpdateClusterConfigForLogging_enabled_order_witness:
  "input_Logging (updateInput (testConfig [''scheduler'', ''api'', ''api'']))
   = [\<lparr>Enabled = Some True, Types = [Some ''api'', Some ''scheduler'']\<rparr>,
      \<lparr>Enabled = Some False,
       Types = [Some ''audit'', Some ''authenticator'', Some ''controllerManager'']\<rparr>]
   \<and> input_Logging (updateInput (testConfig [''authenticator'', ''controllerManager'']))
   = [\<lparr>Enabled = Some True, Types = [Some ''authenticator'', Some ''controllerManager'']\<rparr>,
      \<lparr>Enabled = Some False, Types = [Some ''api'', Some ''audit'', Some ''scheduler'']\<rparr>]"
proof -
  have e1: "sorted_list_of_set (set [''scheduler'', ''api'', ''api'']) = [''api'', ''scheduler'']"
    by code_simp
  have d1: "sorted_list_of_set
      (set SupportedCloudWatchClusterLoggingTypes - set [''scheduler'', ''api'', ''api''])
      = [''audit'', ''authenticator'', ''controllerManager'']"
    unfolding SupportedCloudWatchClusterLoggingTypes_def by code_simp
  have e2: "sorted_list_of_set (set [''authenticator'', ''controllerManager''])
      = [''authenticator'', ''controllerManager'']"
    by code_simp
  have d2: "sorted_list_of_set
      (set SupportedCloudWatchClusterLoggingTypes - set [''authenticator'', ''controllerManager''])
      = [''api'', ''audit'', ''scheduler'']"
    unfolding SupportedCloudWatchClusterLoggingTypes_def by code_simp
  have first: "input_Logging (updateInput (testConfig [''scheduler'', ''api'', ''api'']))
      = [\<lparr>Enabled = Some True, Types = [Some ''api'', Some ''scheduler'']\<rparr>,
         \<lparr>Enabled = Some False,
          Types = [Some ''audit'', Some ''authenticator'', Some ''controllerManager'']\<rparr>]"
  proof -
    have cw: "CloudWatch (testConfig [''scheduler'', ''api'', ''api''])
        = Some \<lparr>ClusterLogging = Some \<lparr>EnableTypes = [''scheduler'', ''api'', ''api'']\<rparr>\<rparr>"
      by (simp add: testConfig_def)
    have cl: "ClusterLogging \<lparr>ClusterLogging = Some \<lparr>EnableTypes = [''scheduler'', ''api'', ''api'']\<rparr>\<rparr>
        = Some \<lparr>EnableTypes = [''scheduler'', ''api'', ''api'']\<rparr>"
      by simp
    show ?thesis
      using UpdateClusterConfigForLogging_enabled_order
        [OF cw cl, THEN conjunct2, THEN conjunct1]
      by (simp only: ClusterCloudWatchLogging.select_convs e1 d1 StringSlice_def list.map)
  qed
  have second: "input_Logging (updateInput (testConfig [''authenticator'', ''controllerManager'']))
      = [\<lparr>Enabled = Some True, Types = [Some ''authenticator'', Some ''controllerManager'']\<rparr>,
         \<lparr>Enabled = Some False, Types = [Some ''api'', Some ''audit'', Some ''scheduler'']\<rparr>]"
  proof -
    have cw: "CloudWatch (testConfig [''authenticator'', ''controllerManager''])
        = Some \<lparr>ClusterLogging =
            Some \<lparr>EnableTypes = [''authenticator'', ''controllerManager'']\<rparr>\<rparr>"
      by (simp add: testConfig_def)
    have cl: "ClusterLogging
          \<lparr>ClusterLogging = Some \<lparr>EnableTypes = [''authenticator'', ''controllerManager'']\<rparr>\<rparr>
        = Some \<lparr>EnableTypes = [''authenticator'', ''controllerManager'']\<rparr>"
      by simp
    show ?thesis
      using UpdateClusterConfigForLogging_enabled_order
        [OF cw cl, THEN conjunct2, THEN conjunct1]
      by (simp only: ClusterCloudWatchLogging.select_convs e2 d2 StringSlice_def list.map)
  qed
  show ?thesis using first second by simp
qed

section \<open>The control plane must be active\<close>

text \<open>
  When the current configuration cannot be fetched, \<open>doEnableLogging\<close> returns an
  error and has no effect recorded in the trace.
\<close>

lemma doEnableLogging_fetch_fails:
  assumes "GetCurrentClusterConfigForLogging ctl
             (Metadata (rc_ClusterConfig (snd (Load env rc0)))) = Inl err"
  shows "fst (doEnableLogging env ctl rc0) \<noteq> None \<and> snd (doEnableLogging env ctl rc0) = []"
  using assms
  by (auto simp: doEnableLogging_def Let_def split: prod.split option.split)

text \<open>
  C10. \<open>GetCurrentClusterConfigForLogging\<close> returns an error when the describe request
  fails, and also when the described cluster has a status other than \<open>ACTIVE\<close>; the
  error then carries the name and the status. In that case \<open>doEnableLogging\<close> returns
  an error and sends no update request.
\<close>

theorem GetCurrentClusterConfigForLogging_must_be_active:
  "(EKS_DescribeCluster c (provider_Region c) (Name cl) = Inl err \<longrightarrow>
      GetCurrentClusterConfigForLogging c cl =
        Inl (Wrap (Wrap (Wrap err ''unable to describe cluster control plane'')
                     ''unable to describe cluster control plane'')
               ''unable to retrieve current cluster logging configuration''))
   \<and> (EKS_DescribeCluster c (provider_Region c) (Name cl) = Inr cluster
       \<and> cluster_Status cluster \<noteq> ''ACTIVE'' \<longrightarrow>
      GetCurrentClusterConfigForLogging c cl =
        Inl (Wrap (StatusNotActive (cluster_Name cluster) (cluster_Status cluster) ''ACTIVE'')
               ''unable to retrieve current cluster logging configuration''))
   \<and> (EKS_DescribeCluster c (provider_Region c)
         (Name (Metadata (rc_ClusterConfig (snd (Load env rc0))))) = Inr cluster
       \<and> cluster_Status cluster \<noteq> ''ACTIVE'' \<longrightarrow>
      fst (doEnableLogging env c rc0) \<noteq> None \<and> snd (doEnableLogging env c rc0) = [])"
proof -
  have failed: "EKS_DescribeCluster c (provider_Region c) (Name cl) = Inl err \<longrightarrow>
      GetCurrentClusterConfigForLogging c cl =
        Inl (Wrap (Wrap (Wrap err ''unable to describe cluster control plane'')
                     ''unable to describe cluster control plane'')
               ''unable to retrieve current cluster logging configuration'')"
    by (simp add: GetCurrentClusterConfigForLogging_def DescribeControlPlaneMustBeActive_def
          DescribeControlPlane_def)
  have inactive: "EKS_DescribeCluster c (provider_Region c) (Name m) = Inr cluster
       \<and> cluster_Status cluster \<noteq> ''ACTIVE'' \<longrightarrow>
      GetCurrentClusterConfigForLogging c m =
        Inl (Wrap (StatusNotActive (cluster_Name cluster) (cluster_Status cluster) ''ACTIVE'')
               ''unable to retrieve current cluster logging configuration'')" for m
    by (simp add: GetCurrentClusterConfigForLogging_def DescribeControlPlaneMustBeActive_def
          DescribeControlPlane_def ClusterStatusActive_def)
  have stops: "EKS_DescribeCluster c (provider_Region c)
         (Name (Metadata (rc_ClusterConfig (snd (Load env rc0))))) = Inr cluster
       \<and> cluster_Status cluster \<noteq> ''ACTIVE'' \<longrightarrow>
      fst (doEnableLogging env c rc0) \<noteq> None \<and> snd (doEnableLogging env c rc0) = []"
    using inactive [of "Metadata (rc_ClusterConfig (snd (Load env rc0)))"]
      doEnableLogging_fetch_fails [of c env rc0]
    by blast
  show ?thesis
    using failed inactive [of cl] stops by blast
qed

theorem GetCurrentClusterConfigForLogging_must_be_active_witness:
  "GetCurrentClusterConfigForLogging creatingProvider
     \<lparr>Name = ''testcluster'', Region = ''us-west-2''\<rparr>
   = Inl (Wrap (StatusNotActive ''testcluster'' ''CREATING'' ''ACTIVE'')
            ''unable to retrieve current cluster logging configuration'')
   \<and> GetCurrentClusterConfigForLogging pagedProvider
     \<lparr>Name = ''testcluster'', Region = ''us-west-2''\<rparr>
   = Inl (Wrap (Wrap (Wrap (External ''not found'') ''unable to describe cluster control plane'')
                  ''unable to describe cluster control plane'')
            ''unable to retrieve current cluster logging configuration'')
   \<and> doEnableLogging testCollaborators creatingProvider
       \<lparr>rc_ClusterConfig = testConfig [''api''], Plan = False\<rparr>
   = (Some (Wrap (StatusNotActive ''testcluster'' ''CREATING'' ''ACTIVE'')
              ''unable to retrieve current cluster logging configuration''), [])"
proof -
  let ?meta = "\<lparr>Name = ''testcluster'', Region = ''us-west-2''\<rparr>"
  let ?creating = "testCluster\<lparr>cluster_Status := ''CREATING''\<rparr>"
  let ?rc = "\<lparr>rc_ClusterConfig = testConfig [''api''], Plan = False\<rparr>"
  have describe1: "EKS_DescribeCluster creatingProvider (provider_Region creatingProvider)
      (Name ?meta) = Inr ?creating"
    by (simp add: creatingProvider_def testProvider_def)
  have status: "cluster_Status ?creating \<noteq> ''ACTIVE''"
    by (simp add: testCluster_def)
  have describe2: "EKS_DescribeCluster pagedProvider (provider_Region pagedProvider)
      (Name ?meta) = Inl (External ''not found'')"
    by (simp add: pagedProvider_def)
  have describe3: "EKS_DescribeCluster creatingProvider (provider_Region creatingProvider)
      (Name (Metadata (rc_ClusterConfig (snd (Load testCollaborators ?rc))))) = Inr ?creating"
    by (simp add: creatingProvider_def testProvider_def)
  have first: "GetCurrentClusterConfigForLogging creatingProvider ?meta
      = Inl (Wrap (StatusNotActive ''testcluster'' ''CREATING'' ''ACTIVE'')
               ''unable to retrieve current cluster logging configuration'')"
    using GetCurrentClusterConfigForLogging_must_be_active
      [of creatingProvider ?meta _ ?creating, THEN conjunct2, THEN conjunct1]
      describe1 status
    by (simp add: testCluster_def)
  have second: "GetCurrentClusterConfigForLogging pagedProvider ?meta
      = Inl (Wrap (Wrap (Wrap (External ''not found'')
                      ''unable to describe cluster control plane'')
                  ''unable to describe cluster control plane'')
            ''unable to retrieve current cluster logging configuration'')"
    using GetCurrentClusterConfigForLogging_must_be_active
      [of pagedProvider ?meta "External ''not found''", THEN conjunct1] describe2
    by simp
  have third: "fst (doEnableLogging testCollaborators creatingProvider ?rc) \<noteq> None
      \<and> snd (doEnableLogging testCollaborators creatingProvider ?rc) = []"
    using GetCurrentClusterConfigForLogging_must_be_active
      [of creatingProvider _ _ ?creating testCollaborators ?rc,
       THEN conjunct2, THEN conjunct2]
      describe3 status
    by blast
  have run: "doEnableLogging testCollaborators creatingProvider ?rc
      = (Some (Wrap (StatusNotActive ''testcluster'' ''CREATING'' ''ACTIVE'')
                 ''unable to retrieve current cluster logging configuration''), [])"
    using first
    by (simp add: doEnableLogging_def testCollaborators_def testConfig_def
          SetClusterConfigDefaults_def expandTypes_def expandStep_def isUnknown_def
          SupportedCloudWatchClusterLoggingTypes_def)
  show ?thesis using first second third run by simp
qed

section \<open>Waiting for the control plane\<close>

text \<open>
  Steps that leave the loop waiting only add to the number of checks, and the loop
  returns nothing but no error or the timeout error.
\<close>

lemma waitLoop_pending:
  "list_all stillWaiting pending \<Longrightarrow>
   waitLoop c meta (pending @ steps) checks
   = waitLoop c meta steps (checks + failedChecks pending)"
proof (induction pending arbitrary: checks)
  case Nil
  then show ?case by (simp add: failedChecks_def)
next
  case (Cons step pending)
  then have step: "stillWaiting step" and rest: "list_all stillWaiting pending"
    by simp_all
  show ?case
  proof (cases "selected step")
    case None
    then show ?thesis
      using Cons.IH [OF rest] by (simp add: failedChecks_def)
  next
    case (Some taken)
    with step have ticker: "selected step = Some TickerCase" and failed: "check step \<noteq> None"
      by (cases taken; simp add: stillWaiting_def)+
    from failed obtain err where "check step = Some err" by blast
    then show ?thesis
      using ticker Cons.IH [OF rest, of "Suc checks"] by (simp add: failedChecks_def)
  qed
qed

lemma waitLoop_outcomes:
  "waitLoop c meta steps checks = Returns result n \<Longrightarrow>
   result = None \<or> result = Some (TimedOut (Name meta) (provider_WaitTimeout c))"
  by (induction steps arbitrary: checks)
     (auto split: option.splits selectCase.splits)

text \<open>
  C8, as stated, fails: the deadline has no priority over polling. The first check
  has failed, and at the next \<open>select\<close> the timer has fired and a tick is pending as
  well; the runtime may take the tick, the check then runs after the deadline, and when
  it succeeds \<open>WaitForControlPlane\<close> returns no error instead of the timeout error.
\<close>

theorem WaitForControlPlane_deadline_no_priority:
  "WaitForControlPlane testProvider \<lparr>Name = ''testcluster'', Region = ''us-west-2''\<rparr>
     (Some (External ''connection refused''))
     [\<lparr>tickerReady = True, timerReady = True, pick = TickerCase, check = None\<rparr>]
   = Returns None 2"
  by (simp add: WaitForControlPlane_def selected_def)

text \<open>
  C8, amended. \<open>WaitForControlPlane\<close> returns no error at once when the first version
  check succeeds. Otherwise, after any number of steps that leave it waiting: when the
  next \<open>select\<close> takes the timer's case, it returns the timeout error with the name of
  the cluster and the wait timeout and makes no further check, whatever would follow;
  when the next \<open>select\<close> takes a tick and the check succeeds, it returns no error at
  that tick; as long as neither has happened it has not returned. The timer's case is
  taken when the timer alone is ready; when a tick is ready too, the runtime's pick
  decides, so the deadline has no priority over a pending tick. No other error than the
  timeout error is returned.
\<close>

theorem WaitForControlPlane_outcomes:
  assumes "list_all stillWaiting pending"
  shows "WaitForControlPlane c meta None steps = Returns None 1
       \<and> (selected step = Some TimerCase \<longrightarrow>
            WaitForControlPlane c meta (Some err0) (pending @ step # later)
            = Returns (Some (TimedOut (Name meta) (provider_WaitTimeout c)))
                (failedChecks pending + 1))
       \<and> (selected step = Some TickerCase \<and> check step = None \<longrightarrow>
            WaitForControlPlane c meta (Some err0) (pending @ step # later)
            = Returns None (failedChecks pending + 2))
       \<and> WaitForControlPlane c meta (Some err0) pending = Blocked (failedChecks pending + 1)
       \<and> (timerReady step \<and> \<not> tickerReady step \<longrightarrow> selected step = Some TimerCase)
       \<and> (timerReady step \<and> tickerReady step \<longrightarrow> selected step = Some (pick step))
       \<and> (WaitForControlPlane c meta firstCheck steps = Returns result n \<longrightarrow>
            result = None \<or> result = Some (TimedOut (Name meta) (provider_WaitTimeout c)))"
proof (intro conjI)
  note pending = waitLoop_pending [OF assms]
  show "WaitForControlPlane c meta None steps = Returns None 1"
    by (simp add: WaitForControlPlane_def)
  show "selected step = Some TimerCase \<longrightarrow>
          WaitForControlPlane c meta (Some err0) (pending @ step # later)
          = Returns (Some (TimedOut (Name meta) (provider_WaitTimeout c)))
              (failedChecks pending + 1)"
    by (simp add: WaitForControlPlane_def pending)
  show "selected step = Some TickerCase \<and> check step = None \<longrightarrow>
          WaitForControlPlane c meta (Some err0) (pending @ step # later)
          = Returns None (failedChecks pending + 2)"
    by (simp add: WaitForControlPlane_def pending)
  show "WaitForControlPlane c meta (Some err0) pending = Blocked (failedChecks pending + 1)"
    using waitLoop_pending [OF assms, of c meta "[]" 1]
    by (simp add: WaitForControlPlane_def)
  show "timerReady step \<and> \<not> tickerReady step \<longrightarrow> selected step = Some TimerCase"
    by (simp add: selected_def)
  show "timerReady step \<and> tickerReady step \<longrightarrow> selected step = Some (pick step)"
    by (simp add: selected_def)
  show "WaitForControlPlane c meta firstCheck steps = Returns result n \<longrightarrow>
          result = None \<or> result = Some (TimedOut (Name meta) (provider_WaitTimeout c))"
    by (auto simp: WaitForControlPlane_def split: option.splits dest: waitLoop_outcomes)
qed

theorem WaitForControlPlane_outcomes_witness:
  "WaitForControlPlane testProvider \<lparr>Name = ''testcluster'', Region = ''us-west-2''\<rparr>
     (Some (External ''connection refused''))
     [\<lparr>tickerReady = True, timerReady = False, pick = TickerCase,
       check = Some (External ''connection refused'')\<rparr>,
      \<lparr>tickerReady = False, timerReady = False, pick = TickerCase, check = None\<rparr>,
      \<lparr>tickerReady = True, timerReady = True, pick = TickerCase,
       check = Some (External ''connection refused'')\<rparr>,
      \<lparr>tickerReady = False, timerReady = True, pick = TickerCase, check = None\<rparr>,
      \<lparr>tickerReady = True, timerReady = True, pick = TickerCase, check = None\<rparr>]
   = Returns (Some (TimedOut ''testcluster'' 1500000000000)) 3
   \<and> WaitForControlPlane testProvider \<lparr>Name = ''testcluster'', Region = ''us-west-2''\<rparr>
     (Some (External ''connection refused''))
     [\<lparr>tickerReady = True, timerReady = False, pick = TickerCase,
       check = Some (External ''connection refused'')\<rparr>,
      \<lparr>tickerReady = True, timerReady = False, pick = TimerCase, check = None\<rparr>,
      \<lparr>tickerReady = False, timerReady = True, pick = TimerCase, check = None\<rparr>]
   = Returns None 3
   \<and> WaitForControlPlane testProvider \<lparr>Name = ''testcluster'', Region = ''us-west-2''\<rparr>
     (Some (External ''connection refused''))
     [\<lparr>tickerReady = True, timerReady = True, pick = TimerCase, check = None\<rparr>]
   = Returns (Some (TimedOut ''testcluster'' 1500000000000)) 1"
proof -
  let ?meta = "\<lparr>Name = ''testcluster'', Region = ''us-west-2''\<rparr>"
  let ?refused = "External ''connection refused''"
  let ?failing = "\<lparr>tickerReady = True, timerReady = False, pick = TickerCase,
    check = Some ?refused\<rparr>"
  let ?idle = "\<lparr>tickerReady = False, timerReady = False, pick = TickerCase, check = None\<rparr>"
  let ?late = "\<lparr>tickerReady = True, timerReady = True, pick = TickerCase,
    check = Some ?refused\<rparr>"
  let ?deadline = "\<lparr>tickerReady = False, timerReady = True, pick = TickerCase, check = None\<rparr>"
  let ?after = "\<lparr>tickerReady = True, timerReady = True, pick = TickerCase, check = None\<rparr>"
  let ?ok = "\<lparr>tickerReady = True, timerReady = False, pick = TimerCase, check = None\<rparr>"
  let ?unused = "\<lparr>tickerReady = False, timerReady = True, pick = TimerCase, check = None\<rparr>"
  let ?both = "\<lparr>tickerReady = True, timerReady = True, pick = TimerCase, check = None\<rparr>"
  have waiting3: "list_all stillWaiting [?failing, ?idle, ?late]"
    by (simp add: stillWaiting_def selected_def)
  have waiting1: "list_all stillWaiting [?failing]"
    by (simp add: stillWaiting_def selected_def)
  have waiting0: "list_all stillWaiting []"
    by simp
  have count3: "failedChecks [?failing, ?idle, ?late] = 2"
    by (simp add: failedChecks_def selected_def)
  have count1: "failedChecks [?failing] = 1"
    by (simp add: failedChecks_def selected_def)
  have count0: "failedChecks [] = 0"
    by (simp add: failedChecks_def)
  have timer: "provider_WaitTimeout testProvider = 1500000000000"
    by (simp add: testProvider_def)
  have alone: "selected ?deadline = Some TimerCase"
    using WaitForControlPlane_outcomes
      [OF waiting0, of _ _ _ ?deadline,
       THEN conjunct2, THEN conjunct2, THEN conjunct2, THEN conjunct2, THEN conjunct1]
    by simp
  have picked: "selected ?both = Some TimerCase"
    using WaitForControlPlane_outcomes
      [OF waiting0, of _ _ _ ?both,
       THEN conjunct2, THEN conjunct2, THEN conjunct2, THEN conjunct2, THEN conjunct2,
       THEN conjunct1]
    by simp
  have timeout: "WaitForControlPlane testProvider ?meta (Some ?refused)
      ([?failing, ?idle, ?late] @ ?deadline # [?after])
      = Returns (Some (TimedOut (Name ?meta) (provider_WaitTimeout testProvider)))
          (failedChecks [?failing, ?idle, ?late] + 1)"
    using WaitForControlPlane_outcomes
      [OF waiting3, of testProvider ?meta _ ?deadline ?refused "[?after]",
       THEN conjunct2, THEN conjunct1]
      alone
    by blast
  have ready: "WaitForControlPlane testProvider ?meta (Some ?refused)
      ([?failing] @ ?ok # [?unused])
      = Returns None (failedChecks [?failing] + 2)"
    using WaitForControlPlane_outcomes
      [OF waiting1, of testProvider ?meta _ ?ok ?refused "[?unused]",
       THEN conjunct2, THEN conjunct2, THEN conjunct1]
    by (simp add: selected_def)
  have chosen: "WaitForControlPlane testProvider ?meta (Some ?refused) ([] @ ?both # [])
      = Returns (Some (TimedOut (Name ?meta) (provider_WaitTimeout testProvider)))
          (failedChecks [] + 1)"
    using WaitForControlPlane_outcomes
      [OF waiting0, of testProvider ?meta _ ?both ?refused "[]",
       THEN conjunct2, THEN conjunct1]
      picked
    by blast
  have only: "Some (TimedOut (Name ?meta) (provider_WaitTimeout testProvider)) = None
      \<or> Some (TimedOut (Name ?meta) (provider_WaitTimeout testProvider))
         = Some (TimedOut (Name ?meta) (provider_WaitTimeout testProvider))"
    using WaitForControlPlane_outcomes
      [OF waiting0, of testProvider ?meta "[] @ ?both # []" _ _ _ "Some ?refused"
          "Some (TimedOut (Name ?meta) (provider_WaitTimeout testProvider))"
          "failedChecks [] + 1",
       THEN conjunct2, THEN conjunct2, THEN conjunct2, THEN conjunct2, THEN conjunct2,
       THEN conjunct2]
      chosen
    by blast
  show ?thesis
    using timeout ready chosen only
    by (simp add: count3 count1 count0 timer)
qed

section \<open>The task's error channel\<close>

text \<open>
  \<open>close\<close> on a channel that is nil or already closed panics, and so does \<open>Do\<close>.
\<close>

lemma Do_panics:
  "Do t (Chan True sent) = Panicked \<and> Do t NilChan = Panicked"
  by (simp add: Do_def closeChan_def split: prod.split)

text \<open>
  C9. Handed an open channel, \<open>Do\<close> returns what the wrapped call returns, an error
  or none, and on both paths it has closed the channel by exactly one \<open>close\<close>; it
  sends nothing on the channel, so the one error it reports is the returned one.
\<close>

theorem Do_closes_once:
  "Do t (Chan False sent)
     = Returned (fst (call t (spec t))) (Chan True sent) [ChanClose] (snd (call t (spec t)))"
  by (simp add: Do_def closeChan_def split: prod.split)

theorem Do_closes_once_witness:
  "Do \<lparr>info = ''update CloudWatch logging configurtaion'', spec = testConfig [''api''],
       call = (\<lambda>cfg. (Some (External ''denied''), []))\<rparr> (Chan False [])
     = Returned (Some (External ''denied'')) (Chan True []) [ChanClose] []
   \<and> Do \<lparr>info = ''update CloudWatch logging configurtaion'', spec = testConfig [''api''],
       call = (\<lambda>cfg. (None, []))\<rparr> (Chan False [])
     = Returned None (Chan True []) [ChanClose] []"
  using
    Do_closes_once
      [of "\<lparr>info = ''update CloudWatch logging configurtaion'', spec = testConfig [''api''],
            call = (\<lambda>cfg. (Some (External ''denied''), []))\<rparr>" "[]"]
    Do_closes_once
      [of "\<lparr>info = ''update CloudWatch logging configurtaion'', spec = testConfig [''api''],
            call = (\<lambda>cfg. (None, []))\<rparr>" "[]"]
  by simp

end
